theory Spec2Isabelle
  imports Main "HOL-Library.List_Lexorder"
begin

section \<open>Text and the Unicode tables\<close>

text \<open>
  A Python \<open>str\<close> is a sequence of Unicode code points: a list of natural numbers, of
  which \<open>len\<close> is the length and which compare as Python compares strings. \<open>str\<close>
  writes an ASCII literal as such a list.

  What \<open>str.lower\<close>, \<open>unicodedata.normalize\<close> and the classes \<open>\w\<close> and \<open>\s\<close> of \<open>re\<close>
  do is laid down in the Unicode character database, not in the program: the tables
  are parameters of the model. \<open>ci_match p c\<close> says that, under the flag \<open>(?i)\<close>, the
  pattern character \<open>p\<close> matches the subject character \<open>c\<close>.
\<close>

type_synonym ustring = "nat list"

definition str :: "string \<Rightarrow> ustring" where
  "str s = map of_char s"

record unicode =
  str_lower :: "ustring \<Rightarrow> ustring"
  nfkd :: "ustring \<Rightarrow> ustring"
  word_char :: "nat \<Rightarrow> bool"
  space_char :: "nat \<Rightarrow> bool"
  ci_match :: "nat \<Rightarrow> nat \<Rightarrow> bool"

definition hyphen :: nat where
  "hyphen = of_char (CHR ''-'')"

section \<open>Regular expressions of the document-type patterns\<close>

text \<open>
  The fragment of \<open>re\<close> syntax that \<open>pid_pattern\<close> and \<open>pad_pattern\<close> are written in: a
  literal, \<open>\s*\<close>, \<open>\s+\<close>, \<open>\b\<close>, concatenation and alternation. Both patterns carry the
  flag \<open>(?i)\<close>, so a literal is compared by \<open>ci_match\<close>.

  A position in the subject is the character before it (if any) and the rest of the
  subject; \<open>rx_from u r p\<close> lists the positions where a match of \<open>r\<close> that starts at \<open>p\<close>
  can end.
\<close>

datatype rx =
    Lit ustring
  | Space_star
  | Space_plus
  | Wordb
  | Cat rx rx
  | Alt rx rx

type_synonym pos = "nat option \<times> ustring"

fun lit_from :: "unicode \<Rightarrow> ustring \<Rightarrow> pos \<Rightarrow> pos list" where
  "lit_from u [] p = [p]"
| "lit_from u (l # ls) (prev, []) = []"
| "lit_from u (l # ls) (prev, c # cs) =
     (if ci_match u l c then lit_from u ls (Some c, cs) else [])"

fun spaces_from :: "unicode \<Rightarrow> pos \<Rightarrow> pos list" where
  "spaces_from u (prev, []) = [(prev, [])]"
| "spaces_from u (prev, c # cs) =
     (if space_char u c then (prev, c # cs) # spaces_from u (Some c, cs) else [(prev, c # cs)])"

definition at_boundary :: "unicode \<Rightarrow> pos \<Rightarrow> bool" where
  "at_boundary u p =
     ((case fst p of None \<Rightarrow> False | Some c \<Rightarrow> word_char u c)
      \<noteq> (case snd p of [] \<Rightarrow> False | c # cs \<Rightarrow> word_char u c))"

fun rx_from :: "unicode \<Rightarrow> rx \<Rightarrow> pos \<Rightarrow> pos list" where
  "rx_from u (Lit l) p = lit_from u l p"
| "rx_from u Space_star p = spaces_from u p"
| "rx_from u Space_plus p = tl (spaces_from u p)"
| "rx_from u Wordb p = (if at_boundary u p then [p] else [])"
| "rx_from u (Cat a b) p = concat (map (rx_from u b) (rx_from u a p))"
| "rx_from u (Alt a b) p = rx_from u a p @ rx_from u b p"

fun positions :: "nat option \<Rightarrow> ustring \<Rightarrow> pos list" where
  "positions prev [] = [(prev, [])]"
| "positions prev (c # cs) = (prev, c # cs) # positions (Some c) cs"

definition search :: "unicode \<Rightarrow> rx \<Rightarrow> ustring \<Rightarrow> bool" where
  \<comment> \<open>\<open>pattern.search(s)\<close> read as a truth value: some match starts somewhere in \<open>s\<close>.\<close>
  "search u r s = (\<exists>p \<in> set (positions None s). rx_from u r p \<noteq> [])"

section \<open>Documents and the downloader object\<close>

text \<open>
  A document record of the API is a dictionary; the model keeps the keys the program
  reads, each absent (\<open>None\<close>) or present. The value under \<open>docna\<close> is a string in the
  old response format and a nested dictionary in the new one; of the nested dictionary
  the program reads \<open>docna['0']['docna']\<close> only, which is present or not.
\<close>

datatype docna_field = Flat ustring | Nested "ustring option"

record doc =
  docty :: "ustring option"
  docna :: "docna_field option"
  docdt :: "ustring option"
  lang :: "ustring option"
  repnb :: "ustring option"
  url :: "ustring option"
  pdfurl :: "ustring option"

datatype doc_type = PID | PAD

text \<open>The attributes that \<open>__init__\<close> sets and no method changes.\<close>

record downloader =
  out_dir :: ustring
  languages :: ustring
  latest_only :: bool
  dry_run :: bool
  pid_pattern :: rx
  pad_pattern :: rx

definition pid_rx :: rx where
  "pid_rx =
     Alt (Cat Wordb (Cat (Lit (str ''project information document'')) Wordb))
    (Alt (Cat Wordb (Cat (Lit (str ''pid'')) Wordb))
    (Alt (Cat (Lit (str ''pid'')) (Cat Space_star (Cat (Lit (str ''/'')) (Cat Space_star (Lit (str ''isds''))))))
         (Cat (Alt (Lit (str ''concept'')) (Lit (str ''appraisal''))) (Cat Space_star (Lit (str ''stage''))))))"

definition pad_rx :: rx where
  "pad_rx =
     Alt (Cat Wordb (Cat (Alt (Lit (str ''project'')) (Lit (str ''program'')))
            (Cat Space_plus (Cat (Lit (str ''appraisal'')) (Cat Space_plus
              (Cat (Lit (str ''document'')) Wordb))))))
         (Cat Wordb (Cat (Lit (str ''pad'')) Wordb))"

definition init :: "ustring \<Rightarrow> ustring \<Rightarrow> bool \<Rightarrow> bool \<Rightarrow> downloader" where
  "init od langs latest dry =
     \<lparr>out_dir = od, languages = langs, latest_only = latest, dry_run = dry,
      pid_pattern = pid_rx, pad_pattern = pad_rx\<rparr>"

definition get_or :: "'a option \<Rightarrow> 'a \<Rightarrow> 'a" where
  \<comment> \<open>\<open>d.get(key, default)\<close> on a key that is absent or present\<close>
  "get_or v dflt = (case v of None \<Rightarrow> dflt | Some x \<Rightarrow> x)"

definition docty_text :: "unicode \<Rightarrow> doc \<Rightarrow> ustring" where
  "docty_text u d = str_lower u (get_or (docty d) [])"

definition docna_text :: "unicode \<Rightarrow> doc \<Rightarrow> ustring" where
  "docna_text u d =
     (case get_or (docna d) (Flat []) of
        Nested inner \<Rightarrow> (case inner of None \<Rightarrow> [] | Some s \<Rightarrow> str_lower u s)
      | Flat s \<Rightarrow> str_lower u s)"

definition detect_document_type :: "downloader \<Rightarrow> unicode \<Rightarrow> doc \<Rightarrow> doc_type option" where
  "detect_document_type self u d =
     (if search u (pid_pattern self) (docty_text u d) \<or> search u (pid_pattern self) (docna_text u d)
      then Some PID
      else if search u (pad_pattern self) (docty_text u d) \<or> search u (pad_pattern self) (docna_text u d)
      then Some PAD
      else None)"

text \<open>
  \<open>filter_documents\<close> fills the dictionary \<open>{'PID': [], 'PAD': []}\<close>; the model keeps
  its two values, in that order.
\<close>

fun filter_documents :: "downloader \<Rightarrow> unicode \<Rightarrow> doc list \<Rightarrow> doc list \<times> doc list" where
  "filter_documents self u [] = ([], [])"
| "filter_documents self u (d # ds) =
     (let (pids, pads) = filter_documents self u ds
      in case detect_document_type self u d of
           Some PID \<Rightarrow> (d # pids, pads)
         | Some PAD \<Rightarrow> (pids, d # pads)
         | None \<Rightarrow> (pids, pads))"

section \<open>The world outside the program\<close>

text \<open>
  The remote service, the hash function of \<open>hashlib\<close>, the path arithmetic of \<open>pathlib\<close>
  and the Unicode tables are not part of the program: they are the fields of an
  environment. The service answers a request knowing every request sent before it, so
  that any deterministic server or test double is an environment. The content of a
  file and the body of a response are bytes, written as a \<open>string\<close>.
\<close>

datatype request =
    Api_get (proid: ustring) (rows: ustring) (os: nat)
  | File_get (target: ustring)

text \<open>
  The JSON object of an API answer, as far as \<open>get_project_documents\<close> looks at it:
  empty; with a key \<open>response\<close>, whose value has a list under \<open>docs\<close> or not; without
  that key but with a key \<open>documents\<close>, whose value is a dictionary (of which the values
  are listed in order) or not; any other object.
\<close>

datatype wds_json =
    Empty_obj
  | Response_obj "doc list option"
  | Documents_obj "doc list option"
  | Other_obj

datatype api_reply =
    Api_exception
  | Api_response (status_code: nat) (json: wds_json)

text \<open>
  The answer to a file request: \<open>session.get\<close> raises, or there is a response with a
  status code whose body arrives in chunks; the flag says that the stream breaks (an
  exception inside \<open>iter_content\<close>) once those chunks are delivered.
\<close>

datatype file_reply =
    File_exception
  | File_response nat "string list" bool

record env =
  wds :: "request list \<Rightarrow> ustring \<Rightarrow> nat \<Rightarrow> api_reply"
  file_server :: "request list \<Rightarrow> ustring \<Rightarrow> file_reply"
  sha256_hex :: "string \<Rightarrow> ustring"
  path_join :: "ustring \<Rightarrow> ustring \<Rightarrow> ustring"
  tables :: unicode

record stats =
  total_projects :: nat
  projects_with_pid :: nat
  projects_with_pad :: nat
  downloads_successful :: nat
  downloads_skipped :: nat
  downloads_failed :: nat

record manifest_row =
  m_country :: ustring
  m_project_id :: ustring
  m_project_title :: ustring
  m_doc_type :: ustring
  m_doc_date :: ustring
  m_repnb :: ustring
  m_language :: ustring
  m_source_url :: ustring
  m_pdf_url :: ustring
  m_saved_path :: ustring
  m_status :: ustring
  m_sha256 :: ustring

text \<open>
  What a run changes: the requests sent (oldest first), the delays slept, the files on
  disk (path to content; directories are not represented, so \<open>mkdir\<close> of the parents of
  a destination always succeeds), and the two mutable attributes of the downloader.
\<close>

record state =
  requests :: "request list"
  sleeps :: "nat list"
  files :: "ustring \<rightharpoonup> string"
  run_stats :: stats
  manifest_data :: "manifest_row list"

section \<open>Calling the API: retries and pagination\<close>

definition send_api :: "env \<Rightarrow> ustring \<Rightarrow> nat \<Rightarrow> state \<Rightarrow> api_reply \<times> state" where
  \<comment> \<open>\<open>self.session.get(self.base_url, params=params, timeout=30)\<close>\<close>
  "send_api e project_id offset s =
     (wds e (requests s) project_id offset,
      s\<lparr>requests := requests s @ [Api_get project_id (str ''200'') offset]\<rparr>)"

definition sleep :: "nat \<Rightarrow> state \<Rightarrow> state" where
  "sleep delay s = s\<lparr>sleeps := sleeps s @ [delay]\<rparr>"

definition max_retries :: nat where
  "max_retries = 3"

definition base_delay :: nat where
  "base_delay = 1"

text \<open>The body of the \<open>for attempt in range(max_retries)\<close> loop, over the attempts left.\<close>

fun attempts :: "env \<Rightarrow> ustring \<Rightarrow> nat \<Rightarrow> nat list \<Rightarrow> state \<Rightarrow> wds_json \<times> state" where
  "attempts e project_id offset [] s = (Empty_obj, s)"
| "attempts e project_id offset (attempt # rest) s =
     (case send_api e project_id offset s of
        (Api_exception, s1) \<Rightarrow>
          attempts e project_id offset rest (sleep (base_delay * 2 ^ attempt) s1)
      | (Api_response code body, s1) \<Rightarrow>
          if code = 200 then (body, s1)
          else if code = 429 then
            attempts e project_id offset rest (sleep (base_delay * 2 ^ attempt) s1)
          else if code \<ge> 500 then
            attempts e project_id offset rest (sleep (base_delay * 2 ^ attempt) s1)
          else (Empty_obj, s1))"

definition call_wds_api :: "env \<Rightarrow> ustring \<Rightarrow> nat \<Rightarrow> state \<Rightarrow> wds_json \<times> state" where
  "call_wds_api e project_id offset s = attempts e project_id offset [0..<max_retries] s"

fun page_docs :: "wds_json \<Rightarrow> doc list option" where
  \<comment> \<open>the list \<open>docs\<close> of one page; \<open>None\<close> where the loop breaks before it has one\<close>
  "page_docs Empty_obj = None"
| "page_docs (Response_obj v) = Some (get_or v [])"
| "page_docs (Documents_obj v) = Some (case v of None \<Rightarrow> [] | Some vals \<Rightarrow> vals)"
| "page_docs Other_obj = None"

text \<open>
  The \<open>while True\<close> loop of \<open>get_project_documents\<close>. Nothing bounds the number of
  pages, so the loop is a partial function: \<open>None\<close> is a loop that never ends.
\<close>

partial_function (option) fetch_pages ::
  "env \<Rightarrow> ustring \<Rightarrow> nat \<Rightarrow> doc list \<Rightarrow> state \<Rightarrow> (doc list \<times> state) option" where
  "fetch_pages e project_id offset all_docs s =
     (case call_wds_api e project_id offset s of
        (response, s1) \<Rightarrow>
          (case page_docs response of
             None \<Rightarrow> Some (all_docs, s1)
           | Some docs \<Rightarrow>
               if docs = [] then Some (all_docs, s1)
               else if length docs < 200 then Some (all_docs @ docs, s1)
               else fetch_pages e project_id (offset + 200) (all_docs @ docs) s1))"

declare fetch_pages.simps [code]

definition get_project_documents ::
  "env \<Rightarrow> ustring \<Rightarrow> state \<Rightarrow> (doc list \<times> state) option" where
  "get_project_documents e project_id s = fetch_pages e project_id 0 [] s"

section \<open>Selecting documents\<close>

definition is_english :: "unicode \<Rightarrow> doc \<Rightarrow> bool" where
  "is_english u d = (str_lower u (get_or (lang d) []) = str ''en'')"

definition select_documents_by_language :: "downloader \<Rightarrow> unicode \<Rightarrow> doc list \<Rightarrow> doc list" where
  "select_documents_by_language self u docs =
     (if languages self = str ''all'' then docs
      else let english_docs = filter (is_english u) docs
           in if english_docs \<noteq> [] then english_docs
              else (case docs of d # ds \<Rightarrow> [d] | [] \<Rightarrow> []))"

definition lang_key :: "unicode \<Rightarrow> doc \<Rightarrow> ustring" where
  "lang_key u d = str_lower u (get_or (lang d) (str ''xx''))"

definition date_key :: "doc \<Rightarrow> ustring" where
  "date_key d = get_or (docdt d) (str ''0000-00-00'')"

text \<open>
  \<open>by_lang\<close> is a dictionary filled in the order of the documents, and \<open>values()\<close> lists
  it in the order in which its keys were first stored: an association list.
\<close>

fun add_to_group :: "(ustring \<times> doc list) list \<Rightarrow> ustring \<Rightarrow> doc \<Rightarrow> (ustring \<times> doc list) list" where
  "add_to_group [] l d = [(l, [d])]"
| "add_to_group ((k, ds) # rest) l d =
     (if k = l then (k, ds @ [d]) # rest else (k, ds) # add_to_group rest l d)"

definition group_by_lang :: "unicode \<Rightarrow> doc list \<Rightarrow> (ustring \<times> doc list) list" where
  "group_by_lang u docs = foldl (\<lambda>by_lang d. add_to_group by_lang (lang_key u d) d) [] docs"

text \<open>
  \<open>sorted(xs, key=k, reverse=True)\<close>: the list is reversed, sorted by a stable sort and
  reversed again, so that documents with equal keys keep their order.
\<close>

definition sorted_reverse :: "('a \<Rightarrow> 'k::linorder) \<Rightarrow> 'a list \<Rightarrow> 'a list" where
  "sorted_reverse k xs = rev (sort_key k (rev xs))"

definition first_item :: "'a list \<Rightarrow> 'a option" where
  \<comment> \<open>\<open>xs[0]\<close>; \<open>None\<close> is the IndexError of an empty list\<close>
  "first_item xs = (case xs of [] \<Rightarrow> None | x # _ \<Rightarrow> Some x)"

fun collect :: "'a option list \<Rightarrow> 'a list option" where
  "collect [] = Some []"
| "collect (None # xs) = None"
| "collect (Some x # xs) = (case collect xs of None \<Rightarrow> None | Some ys \<Rightarrow> Some (x # ys))"

definition select_latest_documents :: "downloader \<Rightarrow> unicode \<Rightarrow> doc list \<Rightarrow> doc list option" where
  \<comment> \<open>\<open>None\<close>: the call raises instead of returning\<close>
  "select_latest_documents self u docs =
     (if \<not> latest_only self then Some docs
      else collect (map (\<lambda>(l, lang_docs). first_item (sorted_reverse date_key lang_docs))
                        (group_by_lang u docs)))"

section \<open>File names\<close>

definition is_sep :: "unicode \<Rightarrow> nat \<Rightarrow> bool" where
  \<comment> \<open>the class \<open>[-\s]\<close>\<close>
  "is_sep u c = (c = hyphen \<or> space_char u c)"

definition is_kept :: "unicode \<Rightarrow> nat \<Rightarrow> bool" where
  \<comment> \<open>the complement of the class \<open>[^\w\s-]\<close>\<close>
  "is_kept u c = (word_char u c \<or> space_char u c \<or> c = hyphen)"

function collapse :: "unicode \<Rightarrow> ustring \<Rightarrow> ustring" where
  \<comment> \<open>\<open>re.sub(r'[-\s]+', '-', text)\<close>\<close>
  "collapse u [] = []"
| "collapse u (c # cs) =
     (if is_sep u c then hyphen # collapse u (dropWhile (is_sep u) cs) else c # collapse u cs)"
  by pat_completeness auto
termination
  by (relation "measure (\<lambda>(u, s). length s)") (auto simp: le_imp_less_Suc length_dropWhile_le)

definition is_hyphen :: "nat \<Rightarrow> bool" where
  "is_hyphen c = (c = hyphen)"

definition rstrip_hyphens :: "ustring \<Rightarrow> ustring" where
  "rstrip_hyphens s = rev (dropWhile is_hyphen (rev s))"

definition strip_hyphens :: "ustring \<Rightarrow> ustring" where
  "strip_hyphens s = rstrip_hyphens (dropWhile is_hyphen s)"

definition slug :: "unicode \<Rightarrow> ustring \<Rightarrow> nat \<Rightarrow> ustring" where
  "slug u txt max_length =
     (let t1 = nfkd u txt;
          t2 = filter (is_kept u) (str_lower u t1);
          t3 = collapse u t2;
          t4 = strip_hyphens t3
      in if length t4 > max_length then rstrip_hyphens (take max_length t4) else t4)"

definition default_max_length :: nat where
  "default_max_length = 120"

definition doc_name :: "doc \<Rightarrow> ustring" where
  "doc_name d =
     (case get_or (docna d) (Flat (str ''Unknown'')) of
        Nested inner \<Rightarrow> (case inner of None \<Rightarrow> (str ''Unknown'') | Some s \<Rightarrow> s)
      | Flat s \<Rightarrow> s)"

definition doc_date :: "doc \<Rightarrow> ustring" where
  \<comment> \<open>\<open>doc_date.split('T')[0]\<close> is the text before the first \<open>T\<close>\<close>
  "doc_date d =
     (let dt = get_or (docdt d) (str ''0000-00-00'')
      in if of_char (CHR ''T'') \<in> set dt then takeWhile (\<lambda>c. c \<noteq> of_char (CHR ''T'')) dt else dt)"

definition type_name :: "doc_type \<Rightarrow> ustring" where
  "type_name t = (case t of PID \<Rightarrow> (str ''PID'') | PAD \<Rightarrow> (str ''PAD''))"

definition generate_filename :: "unicode \<Rightarrow> doc \<Rightarrow> doc_type \<Rightarrow> ustring" where
  "generate_filename u d t =
     doc_date d @ (str ''_'') @ get_or (repnb d) (str ''NO-REPNB'') @ (str ''_'')
       @ slug u (doc_name d) default_max_length @ (str ''_'') @ str_lower u (get_or (lang d) (str ''xx''))
       @ (str ''.pdf'')"

definition get_document_path ::
  "downloader \<Rightarrow> env \<Rightarrow> doc \<Rightarrow> doc_type \<Rightarrow> ustring \<Rightarrow> ustring \<Rightarrow> ustring \<Rightarrow> ustring" where
  "get_document_path self e d t project_id country project_name =
     (let project_slug = slug (tables e) project_name default_max_length;
          project_dir = path_join e (path_join e (out_dir self) country) (project_id @ (str ''_'') @ project_slug);
          type_dir = path_join e project_dir (type_name t)
      in path_join e type_dir (generate_filename (tables e) d t))"

section \<open>Downloading\<close>

definition path_exists :: "state \<Rightarrow> ustring \<Rightarrow> bool" where
  \<comment> \<open>\<open>file_path.exists()\<close>\<close>
  "path_exists s file_path = (files s file_path \<noteq> None)"

definition get_file_hash :: "env \<Rightarrow> ustring \<Rightarrow> state \<Rightarrow> ustring" where
  "get_file_hash e file_path s =
     (case files s file_path of None \<Rightarrow> [] | Some content \<Rightarrow> sha256_hex e content)"

definition send_file :: "env \<Rightarrow> ustring \<Rightarrow> state \<Rightarrow> file_reply \<times> state" where
  \<comment> \<open>\<open>self.session.get(url, timeout=30, stream=True)\<close>\<close>
  "send_file e u s = (file_server e (requests s) u, s\<lparr>requests := requests s @ [File_get u]\<rparr>)"

definition file_size :: "state \<Rightarrow> ustring \<Rightarrow> nat" where
  "file_size s file_path = (case files s file_path of None \<Rightarrow> 0 | Some content \<Rightarrow> length content)"

definition download_pdf ::
  "downloader \<Rightarrow> env \<Rightarrow> ustring \<Rightarrow> ustring \<Rightarrow> state \<Rightarrow> (bool \<times> ustring \<times> ustring) \<times> state" where
  "download_pdf self e u file_path s =
     (if dry_run self then ((True, (str ''dry_run''), []), s)
      else if path_exists s file_path
      then ((True, (str ''skipped_existing''), get_file_hash e file_path s), s)
      else (case send_file e u s of
              (File_exception, s1) \<Rightarrow> ((False, (str ''failed''), []), s1)
            | (File_response code chunks broken, s1) \<Rightarrow>
                if 400 \<le> code \<and> code < 600 then ((False, (str ''failed''), []), s1)
                else let s2 = s1\<lparr>files := (files s1)(file_path \<mapsto> concat chunks)\<rparr>
                     in if broken then ((False, (str ''failed''), []), s2)
                        else if path_exists s2 file_path \<and> file_size s2 file_path > 0
                        then ((True, (str ''downloaded''), get_file_hash e file_path s2), s2)
                        else ((False, (str ''failed''), []), s2)))"

fun contains :: "ustring \<Rightarrow> ustring \<Rightarrow> bool" where
  \<comment> \<open>\<open>sub in s\<close>\<close>
  "contains sub [] = (sub = [])"
| "contains sub (c # cs) = (take (length sub) (c # cs) = sub \<or> contains sub cs)"

definition truthy :: "ustring option \<Rightarrow> bool" where
  \<comment> \<open>the truth value of \<open>d.get(key)\<close>: absent and empty are both false\<close>
  "truthy v = (case v of None \<Rightarrow> False | Some x \<Rightarrow> x \<noteq> [])"

definition download_url :: "unicode \<Rightarrow> doc \<Rightarrow> ustring option" where
  "download_url u d =
     (if truthy (pdfurl d) then pdfurl d
      else if truthy (url d) \<and> contains (str ''pdf'') (str_lower u (get_or (url d) [])) then url d
      else None)"

definition download_document ::
  "downloader \<Rightarrow> env \<Rightarrow> doc \<Rightarrow> doc_type \<Rightarrow> ustring \<Rightarrow> ustring \<Rightarrow> ustring \<Rightarrow> state
     \<Rightarrow> (bool \<times> ustring \<times> ustring) \<times> state" where
  "download_document self e d t project_id country project_name s =
     (let file_path = get_document_path self e d t project_id country project_name
      in case download_url (tables e) d of
           None \<Rightarrow> ((False, (str ''failed''), []), s)
         | Some pdf_url \<Rightarrow>
             (case download_pdf self e pdf_url file_path s of
                ((success, status, file_hash), s1) \<Rightarrow>
                  ((success, status, file_hash),
                   s1\<lparr>manifest_data := manifest_data s1 @
                     [\<lparr>m_country = country, m_project_id = project_id,
                       m_project_title = project_name, m_doc_type = type_name t,
                       m_doc_date = doc_date d, m_repnb = get_or (repnb d) (str ''NO-REPNB''),
                       m_language = get_or (lang d) (str ''xx''), m_source_url = get_or (url d) [],
                       m_pdf_url = pdf_url, m_saved_path = file_path,
                       m_status = status, m_sha256 = file_hash\<rparr>]\<rparr>)))"

section \<open>Processing a project\<close>

record summary =
  s_country :: ustring
  s_project_id :: ustring
  s_project_title :: ustring
  has_pid :: bool
  has_pad :: bool
  pid_count :: nat
  pad_count :: nat
  pid_paths :: ustring
  pad_paths :: ustring

fun join :: "ustring \<Rightarrow> ustring list \<Rightarrow> ustring" where
  \<comment> \<open>\<open>sep.join(xs)\<close>\<close>
  "join sep [] = []"
| "join sep [x] = x"
| "join sep (x # y # ys) = x @ sep @ join sep (y # ys)"

definition create_project_summary ::
  "ustring \<Rightarrow> ustring \<Rightarrow> ustring \<Rightarrow> bool \<Rightarrow> bool \<Rightarrow> nat \<Rightarrow> nat \<Rightarrow> ustring list \<Rightarrow> ustring list \<Rightarrow> summary" where
  "create_project_summary project_id country project_name hpid hpad npid npad ppaths apaths =
     \<lparr>s_country = country, s_project_id = project_id, s_project_title = project_name,
      has_pid = hpid, has_pad = hpad, pid_count = npid, pad_count = npad,
      pid_paths = join (str '';'') ppaths, pad_paths = join (str '';'') apaths\<rparr>"

definition count_download :: "bool \<Rightarrow> ustring \<Rightarrow> stats \<Rightarrow> stats" where
  "count_download success status st =
     (if success \<and> status = (str ''downloaded'')
      then st\<lparr>downloads_successful := downloads_successful st + 1\<rparr>
      else if success \<and> status = (str ''skipped_existing'')
      then st\<lparr>downloads_skipped := downloads_skipped st + 1\<rparr>
      else st\<lparr>downloads_failed := downloads_failed st + 1\<rparr>)"

text \<open>
  The loop \<open>for doc in selected_docs\<close>: every selected document is handed to
  \<open>_download_document\<close>, the outcome is counted, and the document's path is appended
  to the list of paths of its type.
\<close>

fun download_each ::
  "downloader \<Rightarrow> env \<Rightarrow> doc_type \<Rightarrow> ustring \<Rightarrow> ustring \<Rightarrow> ustring \<Rightarrow> doc list
     \<Rightarrow> ustring list \<Rightarrow> state \<Rightarrow> ustring list \<times> state" where
  "download_each self e t project_id country project_name [] paths s = (paths, s)"
| "download_each self e t project_id country project_name (d # ds) paths s =
     (case download_document self e d t project_id country project_name s of
        ((success, status, file_hash), s1) \<Rightarrow>
          download_each self e t project_id country project_name ds
            (paths @ [get_document_path self e d t project_id country project_name])
            (s1\<lparr>run_stats := count_download success status (run_stats s1)\<rparr>))"

text \<open>
  One round of the loop over \<open>filtered_docs.items()\<close>; \<open>None\<close> when an exception
  leaves the round.
\<close>

definition process_type ::
  "downloader \<Rightarrow> env \<Rightarrow> doc_type \<Rightarrow> ustring \<Rightarrow> ustring \<Rightarrow> ustring \<Rightarrow> doc list \<Rightarrow> state
     \<Rightarrow> (ustring list \<times> state) option" where
  "process_type self e t project_id country project_name type_docs s =
     (if type_docs = [] then Some ([], s)
      else let selected_docs = select_documents_by_language self (tables e) type_docs
           in case (if latest_only self then select_latest_documents self (tables e) selected_docs
                    else Some selected_docs) of
                None \<Rightarrow> None
              | Some chosen \<Rightarrow>
                  Some (download_each self e t project_id country project_name chosen [] s))"

definition count_project :: "bool \<Rightarrow> bool \<Rightarrow> stats \<Rightarrow> stats" where
  "count_project hpid hpad st =
     (let st1 = (if hpid then st\<lparr>projects_with_pid := projects_with_pid st + 1\<rparr> else st)
      in if hpad then st1\<lparr>projects_with_pad := projects_with_pad st1 + 1\<rparr> else st1)"

text \<open>
  \<open>process_project\<close> returns \<open>None\<close> when the call does not return a summary: the
  page loop never ends, or an exception leaves the function.
\<close>

definition process_project ::
  "downloader \<Rightarrow> env \<Rightarrow> ustring \<Rightarrow> ustring \<Rightarrow> ustring \<Rightarrow> state \<Rightarrow> (summary \<times> state) option" where
  "process_project self e project_id country project_name s =
     (case get_project_documents e project_id s of
        None \<Rightarrow> None
      | Some (docs, s1) \<Rightarrow>
          if docs = []
          then Some (create_project_summary project_id country project_name False False 0 0 [] [], s1)
          else
            (case filter_documents self (tables e) docs of
               (pids, pads) \<Rightarrow>
                 (case process_type self e PID project_id country project_name pids s1 of
                    None \<Rightarrow> None
                  | Some (ppaths, s2) \<Rightarrow>
                      (case process_type self e PAD project_id country project_name pads s2 of
                         None \<Rightarrow> None
                       | Some (apaths, s3) \<Rightarrow>
                           let hpid = length pids > 0; hpad = length pads > 0
                           in Some (create_project_summary project_id country project_name
                                      hpid hpad (length pids) (length pads) ppaths apaths,
                                    s3\<lparr>run_stats := count_project hpid hpad (run_stats s3)\<rparr>)))))"

section \<open>Examples used by the theorems\<close>

text \<open>
  The examples hold ASCII text only. On ASCII code points the Unicode tables are the
  following: \<open>lower\<close> moves \<open>A\<close> to \<open>Z\<close> onto \<open>a\<close> to \<open>z\<close>, normalisation changes nothing, a
  word character is a letter, a digit or the underscore, white space is one of the
  code points 9 to 13 and 28 to 32, and two characters match under \<open>(?i)\<close> when their
  lower-case forms are equal. What the example tables say about other code points is
  used nowhere.
\<close>

definition ascii_lower :: "nat \<Rightarrow> nat" where
  "ascii_lower n = (if 65 \<le> n \<and> n \<le> 90 then n + 32 else n)"

definition ascii_word :: "nat \<Rightarrow> bool" where
  "ascii_word n = ((48 \<le> n \<and> n \<le> 57) \<or> (65 \<le> n \<and> n \<le> 90) \<or> n = 95 \<or> (97 \<le> n \<and> n \<le> 122))"

definition ascii_space :: "nat \<Rightarrow> bool" where
  "ascii_space n = ((9 \<le> n \<and> n \<le> 13) \<or> (28 \<le> n \<and> n \<le> 32))"

definition ascii_tables :: unicode where
  "ascii_tables = \<lparr>str_lower = map ascii_lower, nfkd = (\<lambda>txt. txt),
                   word_char = ascii_word, space_char = ascii_space,
                   ci_match = (\<lambda>p c. ascii_lower p = ascii_lower c)\<rparr>"

definition doc_of :: "ustring option \<Rightarrow> docna_field option \<Rightarrow> doc" where
  "doc_of ty na = \<lparr>docty = ty, docna = na, docdt = None, lang = None, repnb = None, url = None, pdfurl = None\<rparr>"

definition pad_typed_pid_named :: doc where
  "pad_typed_pid_named =
     doc_of (Some (str ''Project Appraisal Document'')) (Some (Flat (str ''Updated PID for the road project'')))"

definition pad_named :: doc where
  "pad_named =
     doc_of (Some (str ''Other'')) (Some (Nested (Some (str ''Program Appraisal Document for testing''))))"

definition audit_report :: doc where
  "audit_report = doc_of (Some (str ''Audit Report'')) (Some (Flat (str ''Some audit document'')))"

definition default_downloader :: downloader where
  "default_downloader = init (str ''downloads'') (str ''en'') False False"

definition lang_doc :: "string \<Rightarrow> string \<Rightarrow> string \<Rightarrow> doc" where
  "lang_doc name l dt =
     \<lparr>docty = Some (str ''Project Information Document''), docna = Some (Flat (str name)),
      docdt = Some (str dt), lang = Some (str l), repnb = None, url = None, pdfurl = None\<rparr>"

definition german_pid :: doc where
  "german_pid = lang_doc ''Projektinformation'' ''de'' ''2019-03-01''"

definition english_2020 :: doc where
  "english_2020 = lang_doc ''Appraisal 2020'' ''en'' ''2020-01-01''"

definition english_2021 :: doc where
  "english_2021 = lang_doc ''Appraisal 2021'' ''EN'' ''2021-06-15''"

definition french_first :: doc where
  "french_first = lang_doc ''Evaluation, premier tirage'' ''fr'' ''2021-06-15''"

definition french_second :: doc where
  "french_second = lang_doc ''Evaluation, second tirage'' ''FR'' ''2021-06-15''"

definition french_old :: doc where
  "french_old = lang_doc ''Evaluation 2018'' ''fr'' ''2018-11-30''"

definition untagged_2017 :: doc where
  \<comment> \<open>a document without the key \<open>lang\<close>\<close>
  "untagged_2017 = (lang_doc ''Appraisal 2017'' '''' ''2017-05-02'')\<lparr>lang := None\<rparr>"

definition mixed_docs :: "doc list" where
  \<comment> \<open>three French documents, two of them with the latest date, two English ones and one without a tag\<close>
  "mixed_docs = [french_old, english_2020, french_first, untagged_2017, english_2021, french_second]"

definition latest_downloader :: downloader where
  "latest_downloader = init (str ''downloads'') (str ''en'') True False"

definition plain_env :: env where
  \<comment> \<open>a service that cannot be reached; a stand-in for the hash that shows the bytes it was given;
      paths joined with a slash; the tables of ASCII text\<close>
  "plain_env = \<lparr>wds = (\<lambda>history project_id offset. Api_exception),
                file_server = (\<lambda>history u. File_exception),
                sha256_hex = (\<lambda>content. str (''sha256:'' @ content)),
                path_join = (\<lambda>a b. a @ str ''/'' @ b),
                tables = ascii_tables\<rparr>"

definition fresh_run :: state where
  \<comment> \<open>the state of a downloader that has just been created, on an empty disk\<close>
  "fresh_run = \<lparr>requests = [], sleeps = [], files = Map.empty,
     run_stats = \<lparr>total_projects = 0, projects_with_pid = 0, projects_with_pad = 0,
       downloads_successful = 0, downloads_skipped = 0, downloads_failed = 0\<rparr>,
     manifest_data = []\<rparr>"


definition report_path :: ustring where
  "report_path = str ''downloads/KE/P1_roads/PID/2020-01-01_R1_pid_en.pdf''"

definition report_url :: ustring where
  "report_url = str ''https://documents.example.org/R1.pdf''"


definition empty_body_env :: env where
  \<comment> \<open>a file server that answers every request with status 200 and an empty body\<close>
  "empty_body_env = plain_env\<lparr>file_server := (\<lambda>history u. File_response 200 [] False)\<rparr>"

text \<open>The state after a series of further calls of \<open>download_pdf\<close>, each with its URL and path.\<close>

fun after_downloads :: "downloader \<Rightarrow> env \<Rightarrow> (ustring \<times> ustring) list \<Rightarrow> state \<Rightarrow> state" where
  "after_downloads self e [] s = s"
| "after_downloads self e ((u, file_path) # calls) s =
     after_downloads self e calls (snd (download_pdf self e u file_path s))"

text \<open>
  Words for the statements about retries: the reply that the attempt number \<open>k\<close>
  (counted from 0) of a call receives when the call starts in state \<open>s\<close> and every
  earlier attempt was retried; the two kinds of reply that are not a success; and the
  state after \<open>n\<close> requests and \<open>m\<close> delays.
\<close>

definition nth_reply :: "env \<Rightarrow> ustring \<Rightarrow> nat \<Rightarrow> state \<Rightarrow> nat \<Rightarrow> api_reply" where
  "nth_reply e project_id offset s k =
     wds e (requests s @ replicate k (Api_get project_id (str ''200'') offset)) project_id offset"

definition retryable :: "api_reply \<Rightarrow> bool" where
  "retryable r =
     (case r of Api_exception \<Rightarrow> True | Api_response code body \<Rightarrow> code = 429 \<or> code \<ge> 500)"

definition rejected :: "api_reply \<Rightarrow> bool" where
  "rejected r =
     (case r of Api_exception \<Rightarrow> False
      | Api_response code body \<Rightarrow> code \<noteq> 200 \<and> code \<noteq> 429 \<and> code < 500)"

definition after_attempts :: "ustring \<Rightarrow> nat \<Rightarrow> state \<Rightarrow> nat \<Rightarrow> nat list \<Rightarrow> state" where
  "after_attempts project_id offset s n slept =
     s\<lparr>requests := requests s @ replicate n (Api_get project_id (str ''200'') offset),
       sleeps := sleeps s @ map (\<lambda>attempt. base_delay * 2 ^ attempt) slept\<rparr>"

definition unavailable_env :: env where
  \<comment> \<open>a service that answers every API request with status 503\<close>
  "unavailable_env = plain_env\<lparr>wds := (\<lambda>history project_id offset. Api_response 503 Empty_obj)\<rparr>"

text \<open>
  Words for the statements about pagination. When the page requests of one fetch are
  made one after the other from state \<open>s\<close>, with offsets 0, 200, 400 and so on,
  \<open>page_state k\<close> is the state in which request number \<open>k\<close> (counted from 0) is made
  and \<open>page_records k\<close> are the records it returns: none when the call fails or the
  answer has neither known shape.
\<close>

fun page_state :: "env \<Rightarrow> ustring \<Rightarrow> state \<Rightarrow> nat \<Rightarrow> state" where
  "page_state e project_id s 0 = s"
| "page_state e project_id s (Suc k) =
     snd (call_wds_api e project_id (200 * k) (page_state e project_id s k))"

definition page_records :: "env \<Rightarrow> ustring \<Rightarrow> state \<Rightarrow> nat \<Rightarrow> doc list" where
  "page_records e project_id s k =
     (case page_docs (fst (call_wds_api e project_id (200 * k) (page_state e project_id s k))) of
        None \<Rightarrow> []
      | Some docs \<Rightarrow> docs)"

definition three_page_env :: env where
  \<comment> \<open>a service that answers the first two requests with 200 records and every later one with 47\<close>
  "three_page_env = plain_env\<lparr>wds := (\<lambda>history project_id offset.
     Api_response 200 (Response_obj (Some
       (replicate (if length history < 2 then 200 else 47) german_pid))))\<rparr>"

text \<open>
  The documents of one type that \<open>process_project\<close> hands to the download loop: the
  value of its variable \<open>selected_docs\<close> after the language step and, with
  \<open>latest_only\<close>, the recency step.
\<close>

definition selected_docs :: "downloader \<Rightarrow> unicode \<Rightarrow> doc list \<Rightarrow> doc list option" where
  "selected_docs self u type_docs =
     (if latest_only self
      then select_latest_documents self u (select_documents_by_language self u type_docs)
      else Some (select_documents_by_language self u type_docs))"

definition pid_docs :: "downloader \<Rightarrow> unicode \<Rightarrow> doc list \<Rightarrow> doc list" where
  "pid_docs self u docs = filter (\<lambda>d. detect_document_type self u d = Some PID) docs"

definition pad_docs :: "downloader \<Rightarrow> unicode \<Rightarrow> doc list \<Rightarrow> doc list" where
  "pad_docs self u docs = filter (\<lambda>d. detect_document_type self u d = Some PAD) docs"

definition two_pid_env :: env where
  \<comment> \<open>a service whose only page holds two English PIDs\<close>
  "two_pid_env = plain_env\<lparr>wds := (\<lambda>history project_id offset.
     Api_response 200 (Response_obj (Some [english_2020, english_2021])))\<rparr>"

definition linked_pid :: doc where
  "linked_pid = german_pid\<lparr>pdfurl := Some report_url\<rparr>"

definition one_pid_env :: env where
  \<comment> \<open>a service whose only page holds one PID; every file request fails\<close>
  "one_pid_env = plain_env\<lparr>wds := (\<lambda>history project_id offset.
     Api_response 200 (Response_obj (Some [linked_pid])))\<rparr>"

definition linked_pid_path :: ustring where
  "linked_pid_path =
     str ''downloads/Kenya/P000001_rural-roads/PID/2019-03-01_NO-REPNB_projektinformation_de.pdf''"

text \<open>What a call of \<open>process_project\<close> that returns leaves to look at.\<close>

definition listed_pid_paths :: "(summary \<times> state) option \<Rightarrow> ustring option" where
  "listed_pid_paths r = map_option (\<lambda>(sm, s'). pid_paths sm) r"

definition file_at :: "ustring \<Rightarrow> (summary \<times> state) option \<Rightarrow> string option option" where
  "file_at file_path r = map_option (\<lambda>(sm, s'). files s' file_path) r"

definition manifest_statuses :: "(summary \<times> state) option \<Rightarrow> ustring list option" where
  "manifest_statuses r = map_option (\<lambda>(sm, s'). map m_status (manifest_data s')) r"

definition fetched_docs :: "(doc list \<times> state) option \<Rightarrow> doc list option" where
  "fetched_docs r = map_option fst r"

section \<open>Verification\<close>

subsection \<open>Text\<close>

lemma str_eq_iff [simp]: "str a = str b \<longleftrightarrow> a = b"
  by (simp add: str_def inj_map_eq_map inj_def)

lemma str_Nil [simp]: "str [] = []"
  by (simp add: str_def)

lemma str_eq_Nil_iff [simp]: "str a = [] \<longleftrightarrow> a = []" "[] = str a \<longleftrightarrow> a = []"
  by (auto simp: str_def)

subsection \<open>Classification\<close>

lemma filter_documents_fst:
  "fst (filter_documents self u docs) = filter (\<lambda>d. detect_document_type self u d = Some PID) docs"
  by (induction docs) (auto split: prod.splits option.splits doc_type.splits)

lemma filter_documents_snd:
  "snd (filter_documents self u docs) = filter (\<lambda>d. detect_document_type self u d = Some PAD) docs"
  by (induction docs) (auto split: prod.splits option.splits doc_type.splits)

text \<open>
  Claim C1. The PID pattern is tried on the declared type and on the display name
  before the PAD pattern is looked at: when it matches either field the document is a
  PID whatever the PAD pattern is, the PAD pattern decides (declared type, then display
  name) only when the PID pattern matched neither field, and a document that matches
  nothing has no type and is in neither list of \<open>filter_documents\<close>. This holds for all
  Unicode tables.
\<close>

theorem detect_document_type_precedence:
  "(search u (pid_pattern self) (docty_text u d) \<or> search u (pid_pattern self) (docna_text u d)
      \<longrightarrow> (\<forall>r. detect_document_type (self\<lparr>pad_pattern := r\<rparr>) u d = Some PID))
   \<and> (\<not> search u (pid_pattern self) (docty_text u d) \<and> \<not> search u (pid_pattern self) (docna_text u d)
      \<longrightarrow> detect_document_type self u d =
           (if search u (pad_pattern self) (docty_text u d) then Some PAD
            else if search u (pad_pattern self) (docna_text u d) then Some PAD else None))
   \<and> (\<not> search u (pid_pattern self) (docty_text u d) \<and> \<not> search u (pid_pattern self) (docna_text u d)
      \<and> \<not> search u (pad_pattern self) (docty_text u d) \<and> \<not> search u (pad_pattern self) (docna_text u d)
      \<longrightarrow> detect_document_type self u d = None
          \<and> (\<forall>docs. d \<notin> set (fst (filter_documents self u docs))
                   \<and> d \<notin> set (snd (filter_documents self u docs))))"
  by (simp add: detect_document_type_def filter_documents_fst filter_documents_snd)

theorem detect_document_type_precedence_witness:
  "search ascii_tables (pad_pattern default_downloader) (docty_text ascii_tables pad_typed_pid_named)
   \<and> search ascii_tables (pid_pattern default_downloader) (docna_text ascii_tables pad_typed_pid_named)
   \<and> detect_document_type default_downloader ascii_tables pad_typed_pid_named = Some PID
   \<and> detect_document_type default_downloader ascii_tables pad_named = Some PAD
   \<and> detect_document_type default_downloader ascii_tables audit_report = None
   \<and> audit_report \<notin> set (fst (filter_documents default_downloader ascii_tables
                                 [pad_named, audit_report, pad_typed_pid_named]))
   \<and> audit_report \<notin> set (snd (filter_documents default_downloader ascii_tables
                                 [pad_named, audit_report, pad_typed_pid_named]))"
proof -
  have pad_ty: "search ascii_tables (pad_pattern default_downloader) (docty_text ascii_tables pad_typed_pid_named)"
    by code_simp
  have pid_na: "search ascii_tables (pid_pattern default_downloader) (docna_text ascii_tables pad_typed_pid_named)"
    by code_simp
  have same: "default_downloader\<lparr>pad_pattern := pad_pattern default_downloader\<rparr> = default_downloader"
    by simp
  have one: "detect_document_type default_downloader ascii_tables pad_typed_pid_named = Some PID"
    using detect_document_type_precedence [of ascii_tables default_downloader pad_typed_pid_named] pid_na same
    by metis
  have no_pid: "\<not> search ascii_tables (pid_pattern default_downloader) (docty_text ascii_tables pad_named)"
    "\<not> search ascii_tables (pid_pattern default_downloader) (docna_text ascii_tables pad_named)"
    by code_simp+
  have pad_na: "search ascii_tables (pad_pattern default_downloader) (docna_text ascii_tables pad_named)"
    by code_simp
  have two: "detect_document_type default_downloader ascii_tables pad_named = Some PAD"
    using detect_document_type_precedence [of ascii_tables default_downloader pad_named] no_pid pad_na
    by simp
  have none: "\<not> search ascii_tables (pid_pattern default_downloader) (docty_text ascii_tables audit_report)"
    "\<not> search ascii_tables (pid_pattern default_downloader) (docna_text ascii_tables audit_report)"
    "\<not> search ascii_tables (pad_pattern default_downloader) (docty_text ascii_tables audit_report)"
    "\<not> search ascii_tables (pad_pattern default_downloader) (docna_text ascii_tables audit_report)"
    by code_simp+
  have three: "detect_document_type default_downloader ascii_tables audit_report = None
     \<and> (\<forall>docs. audit_report \<notin> set (fst (filter_documents default_downloader ascii_tables docs))
              \<and> audit_report \<notin> set (snd (filter_documents default_downloader ascii_tables docs)))"
    using detect_document_type_precedence [of ascii_tables default_downloader audit_report] none
    by simp
  from pad_ty pid_na one two three show ?thesis by blast
qed

subsection \<open>Selection by language\<close>

text \<open>
  Claim C5. With the mode \<open>all\<close> the language step returns its input. With any other
  mode (the command line admits \<open>en\<close> only) it returns the documents tagged \<open>en\<close>, in
  their order, when there is one; when there is none and the input is not empty it
  returns the first document of the input alone; so the result is empty only for an
  empty input. A document is tagged \<open>en\<close> when the lower-case form of its \<open>lang\<close> value is
  \<open>en\<close>.
\<close>

theorem select_documents_by_language_cases:
  "(languages self = str ''all'' \<longrightarrow> select_documents_by_language self u docs = docs)
   \<and> (languages self \<noteq> str ''all'' \<longrightarrow>
        ((\<exists>d \<in> set docs. is_english u d) \<longrightarrow>
            select_documents_by_language self u docs = filter (is_english u) docs)
      \<and> ((\<forall>d \<in> set docs. \<not> is_english u d) \<and> docs \<noteq> [] \<longrightarrow>
            select_documents_by_language self u docs = [docs ! 0])
      \<and> (docs \<noteq> [] \<longrightarrow> select_documents_by_language self u docs \<noteq> [])
      \<and> (docs = [] \<longrightarrow> select_documents_by_language self u docs = []))"
proof -
  have none: "filter (is_english u) docs = []" if "\<forall>d \<in> set docs. \<not> is_english u d"
    using that by (simp add: filter_empty_conv)
  have some: "filter (is_english u) docs \<noteq> []" if "\<exists>d \<in> set docs. is_english u d"
    using that by (simp add: filter_empty_conv)
  show ?thesis
    unfolding select_documents_by_language_def Let_def
    using none some by (cases docs) auto
qed

theorem select_documents_by_language_cases_witness:
  "languages default_downloader \<noteq> str ''all''
   \<and> \<not> is_english ascii_tables german_pid
   \<and> select_documents_by_language default_downloader ascii_tables [german_pid] = [german_pid]
   \<and> is_english ascii_tables english_2020
   \<and> select_documents_by_language default_downloader ascii_tables [german_pid, english_2020, english_2021]
       = [english_2020, english_2021]
   \<and> select_documents_by_language (default_downloader\<lparr>languages := str ''all''\<rparr>) ascii_tables
        [german_pid, english_2020] = [german_pid, english_2020]"
proof -
  have mode: "languages default_downloader \<noteq> str ''all''"
    by (simp add: default_downloader_def init_def str_def)
  have de: "\<not> is_english ascii_tables german_pid"
    by code_simp
  have en: "is_english ascii_tables english_2020" "is_english ascii_tables english_2021"
    by code_simp+
  have a: "select_documents_by_language default_downloader ascii_tables [german_pid] = [german_pid]"
    using select_documents_by_language_cases [of default_downloader ascii_tables "[german_pid]"] mode de
    by simp
  have b: "select_documents_by_language default_downloader ascii_tables [german_pid, english_2020, english_2021]
       = [english_2020, english_2021]"
    using select_documents_by_language_cases
      [of default_downloader ascii_tables "[german_pid, english_2020, english_2021]"] mode de en
    by simp
  have c: "select_documents_by_language (default_downloader\<lparr>languages := str ''all''\<rparr>) ascii_tables
        [german_pid, english_2020] = [german_pid, english_2020]"
    using select_documents_by_language_cases
      [of "default_downloader\<lparr>languages := str ''all''\<rparr>" ascii_tables "[german_pid, english_2020]"]
    by simp
  from mode de en a b c show ?thesis by simp
qed

subsection \<open>Selection of the latest documents\<close>

lemma collect_map_Some: "collect (map Some ys) = Some ys"
  by (induction ys) auto

lemma add_to_group_keys:
  "map fst (add_to_group g l d) = (if l \<in> fst ` set g then map fst g else map fst g @ [l])"
  by (induction g l d rule: add_to_group.induct) auto

lemma add_to_group_members:
  "distinct (map fst g) \<Longrightarrow>
   (k, ds) \<in> set (add_to_group g l d) \<longleftrightarrow>
     (k \<noteq> l \<and> (k, ds) \<in> set g)
     \<or> (k = l \<and> (\<exists>ds0. (l, ds0) \<in> set g \<and> ds = ds0 @ [d]))
     \<or> (k = l \<and> l \<notin> fst ` set g \<and> ds = [d])"
proof (induction g l d rule: add_to_group.induct)
  case (1 l d)
  then show ?case by auto
next
  case (2 k' ds' rest l d)
  then show ?case by (auto simp: image_iff)
qed

lemma group_by_lang_snoc:
  "group_by_lang u (docs @ [d]) = add_to_group (group_by_lang u docs) (lang_key u d) d"
  by (simp add: group_by_lang_def)

lemma group_by_lang_keys:
  "distinct (map fst (group_by_lang u docs)) \<and> fst ` set (group_by_lang u docs) = lang_key u ` set docs"
proof (induction docs rule: rev_induct)
  case Nil
  then show ?case by (simp add: group_by_lang_def)
next
  case (snoc d docs)
  then show ?case
    by (auto simp: group_by_lang_snoc add_to_group_keys simp flip: set_map)
qed

lemma group_by_lang_members:
  "(l, ds) \<in> set (group_by_lang u docs) \<Longrightarrow> ds = filter (\<lambda>d. lang_key u d = l) docs \<and> ds \<noteq> []"
proof (induction docs arbitrary: l ds rule: rev_induct)
  case Nil
  then show ?case by (simp add: group_by_lang_def)
next
  case (snoc d docs)
  have dist: "distinct (map fst (group_by_lang u docs))"
    using group_by_lang_keys by blast
  have keys: "fst ` set (group_by_lang u docs) = lang_key u ` set docs"
    using group_by_lang_keys by blast
  from snoc.prems have
    "(l \<noteq> lang_key u d \<and> (l, ds) \<in> set (group_by_lang u docs))
     \<or> (l = lang_key u d \<and> (\<exists>ds0. (lang_key u d, ds0) \<in> set (group_by_lang u docs) \<and> ds = ds0 @ [d]))
     \<or> (l = lang_key u d \<and> lang_key u d \<notin> fst ` set (group_by_lang u docs) \<and> ds = [d])"
    by (simp add: group_by_lang_snoc add_to_group_members [OF dist])
  then show ?case
  proof (elim disjE conjE exE)
    assume "l \<noteq> lang_key u d" "(l, ds) \<in> set (group_by_lang u docs)"
    then show ?thesis using snoc.IH by auto
  next
    fix ds0
    assume "l = lang_key u d" "(lang_key u d, ds0) \<in> set (group_by_lang u docs)" "ds = ds0 @ [d]"
    then show ?thesis using snoc.IH [of "lang_key u d" ds0] by auto
  next
    assume a: "l = lang_key u d" "lang_key u d \<notin> fst ` set (group_by_lang u docs)" "ds = [d]"
    then have "\<forall>x \<in> set docs. lang_key u x \<noteq> lang_key u d"
      using keys by (metis imageI)
    then have "filter (\<lambda>x. lang_key u x = lang_key u d) docs = []"
      by (simp add: filter_empty_conv)
    with a show ?thesis by simp
  qed
qed

lemma find_filter_hd:
  "filter P xs = y # ys \<Longrightarrow> find P xs = Some y"
  by (induction xs) (auto split: if_splits)

lemma sorted_reverse_first:
  assumes "xs \<noteq> []"
  shows "\<exists>x. first_item (sorted_reverse k xs) = Some x \<and> x \<in> set xs
            \<and> (\<forall>y \<in> set xs. k y \<le> k x) \<and> find (\<lambda>y. k y = k x) xs = Some x"
proof -
  define T where "T = sort_key k (rev xs)"
  have T_ne: "T \<noteq> []"
    using assms unfolding T_def by (metis length_0_conv length_rev length_sort)
  have T_set: "set T = set xs"
    unfolding T_def by simp
  have T_sorted: "sorted (map k T)"
    unfolding T_def by simp
  define x where "x = last T"
  have S: "sorted_reverse k xs = x # rev (butlast T)"
    unfolding sorted_reverse_def T_def [symmetric] x_def
    using T_ne by (metis append_butlast_last_id rev.simps(2) rev_append rev_rev_ident rev_singleton_conv append_Cons append_Nil)
  have x_in: "x \<in> set xs"
    using T_ne T_set x_def last_in_set by blast
  have x_max: "k y \<le> k x" if "y \<in> set xs" for y
  proof -
    from that T_set obtain i where i: "i < length T" "T ! i = y"
      by (metis in_set_conv_nth)
    have "map k T ! i \<le> map k T ! (length T - 1)"
      using T_sorted i T_ne by (intro sorted_nth_mono) auto
    then show ?thesis
      using i T_ne by (simp add: x_def last_conv_nth)
  qed
  have stable: "filter (\<lambda>y. k y = k x) (sorted_reverse k xs) = filter (\<lambda>y. k y = k x) xs"
    unfolding sorted_reverse_def
    by (simp add: rev_filter [symmetric] sort_key_stable)
  have "filter (\<lambda>y. k y = k x) (sorted_reverse k xs) = x # filter (\<lambda>y. k y = k x) (rev (butlast T))"
    by (simp add: S)
  with stable have "find (\<lambda>y. k y = k x) xs = Some x"
    by (metis find_filter_hd)
  with S x_in x_max show ?thesis
    by (auto simp: first_item_def)
qed

lemma find_filter: "find P (filter Q xs) = find (\<lambda>x. Q x \<and> P x) xs"
  by (induction xs) auto

lemma latest_of_group:
  assumes "(l, ds) \<in> set (group_by_lang u docs)"
  shows "\<exists>c. first_item (sorted_reverse date_key ds) = Some c \<and> c \<in> set docs \<and> lang_key u c = l
            \<and> (\<forall>d \<in> set docs. lang_key u d = l \<longrightarrow> date_key d \<le> date_key c)
            \<and> find (\<lambda>d. lang_key u d = l \<and> date_key d = date_key c) docs = Some c"
proof -
  from assms have ds: "ds = filter (\<lambda>d. lang_key u d = l) docs" and ne: "ds \<noteq> []"
    using group_by_lang_members by blast+
  from sorted_reverse_first [OF ne, of date_key] obtain c where
    c: "first_item (sorted_reverse date_key ds) = Some c" "c \<in> set ds"
       "\<forall>y \<in> set ds. date_key y \<le> date_key c"
       "find (\<lambda>y. date_key y = date_key c) ds = Some c"
    by blast
  from c(2) ds have c_in: "c \<in> set docs" and c_lang: "lang_key u c = l"
    by auto
  from c(3) ds have c_max: "\<forall>d \<in> set docs. lang_key u d = l \<longrightarrow> date_key d \<le> date_key c"
    by auto
  from c(4) ds have c_first: "find (\<lambda>d. lang_key u d = l \<and> date_key d = date_key c) docs = Some c"
    by (simp add: find_filter)
  from c(1) c_in c_lang c_max c_first show ?thesis by blast
qed

lemma select_latest_documents_shape:
  assumes latest: "latest_only self"
  shows "\<exists>chosen. select_latest_documents self u docs = Some chosen
           \<and> distinct (map (lang_key u) chosen)
           \<and> lang_key u ` set chosen = lang_key u ` set docs
           \<and> (\<forall>c \<in> set chosen. c \<in> set docs
                \<and> (\<forall>d \<in> set docs. lang_key u d = lang_key u c \<longrightarrow> date_key d \<le> date_key c)
                \<and> find (\<lambda>d. lang_key u d = lang_key u c \<and> date_key d = date_key c) docs = Some c)"
proof -
  define G where "G = group_by_lang u docs"
  define pick where "pick = (\<lambda>(l :: ustring, lang_docs). first_item (sorted_reverse date_key lang_docs))"
  define chosen where "chosen = map (\<lambda>g. the (pick g)) G"
  have each: "\<exists>c. pick g = Some c \<and> c \<in> set docs \<and> lang_key u c = fst g
            \<and> (\<forall>d \<in> set docs. lang_key u d = fst g \<longrightarrow> date_key d \<le> date_key c)
            \<and> find (\<lambda>d. lang_key u d = fst g \<and> date_key d = date_key c) docs = Some c"
    if "g \<in> set G" for g
  proof -
    obtain l ds where g: "g = (l, ds)" by (cases g)
    with that have "(l, ds) \<in> set (group_by_lang u docs)" by (simp add: G_def)
    from latest_of_group [OF this] show ?thesis
      by (simp add: g pick_def)
  qed
  have picked: "pick g = Some (the (pick g))" if "g \<in> set G" for g
  proof -
    from each [OF that] obtain c where "pick g = Some c" by blast
    then show ?thesis by simp
  qed
  have "map pick G = map Some chosen"
    unfolding chosen_def using picked by simp
  then have result: "select_latest_documents self u docs = Some chosen"
    using latest
    by (simp add: select_latest_documents_def G_def [symmetric] pick_def [symmetric] collect_map_Some)
  have lang_of: "lang_key u (the (pick g)) = fst g" if "g \<in> set G" for g
  proof -
    from each [OF that] obtain c where "pick g = Some c" "lang_key u c = fst g" by blast
    then show ?thesis by simp
  qed
  have langs: "map (lang_key u) chosen = map fst G"
    unfolding chosen_def using lang_of by simp
  have dist: "distinct (map (lang_key u) chosen)"
    using langs group_by_lang_keys [of u docs] by (simp add: G_def)
  have "lang_key u ` set chosen = fst ` set G"
    using langs by (metis set_map)
  then have image: "lang_key u ` set chosen = lang_key u ` set docs"
    using group_by_lang_keys [of u docs] by (simp add: G_def)
  have props: "c \<in> set docs
      \<and> (\<forall>d \<in> set docs. lang_key u d = lang_key u c \<longrightarrow> date_key d \<le> date_key c)
      \<and> find (\<lambda>d. lang_key u d = lang_key u c \<and> date_key d = date_key c) docs = Some c"
    if "c \<in> set chosen" for c
  proof -
    from that obtain g where g: "g \<in> set G" "c = the (pick g)"
      by (auto simp: chosen_def)
    from each [OF g(1)] g(2) show ?thesis by auto
  qed
  from result dist image props show ?thesis
    by blast
qed

text \<open>
  Claim C6. Without \<open>latest_only\<close> the recency step returns its input. With it, the
  step returns one document for each language tag of the input, the tag of a document
  being the lower-case form of its \<open>lang\<close> value, or \<open>xx\<close> for a document without one: no
  two documents of the result have the same tag, the tags of the result are the tags of
  the input, and each document of the result is a document of the input that no
  document with the same tag is dated later than, and among the documents with that tag
  and that date the first one of the input. The date of a document is its \<open>docdt\<close>
  value, or \<open>0000-00-00\<close> without one, and dates are compared as the strings they are.
\<close>

theorem select_latest_documents_per_language:
  "(\<not> latest_only self \<longrightarrow> select_latest_documents self u docs = Some docs)
   \<and> (latest_only self \<longrightarrow>
        (\<exists>chosen. select_latest_documents self u docs = Some chosen
           \<and> distinct (map (\<lambda>d. str_lower u (get_or (lang d) (str ''xx''))) chosen)
           \<and> (\<lambda>d. str_lower u (get_or (lang d) (str ''xx''))) ` set chosen
               = (\<lambda>d. str_lower u (get_or (lang d) (str ''xx''))) ` set docs
           \<and> (\<forall>c \<in> set chosen. c \<in> set docs
                \<and> (\<forall>d \<in> set docs.
                      str_lower u (get_or (lang d) (str ''xx'')) = str_lower u (get_or (lang c) (str ''xx''))
                      \<longrightarrow> get_or (docdt d) (str ''0000-00-00'') \<le> get_or (docdt c) (str ''0000-00-00''))
                \<and> find (\<lambda>d. str_lower u (get_or (lang d) (str ''xx''))
                               = str_lower u (get_or (lang c) (str ''xx''))
                             \<and> get_or (docdt d) (str ''0000-00-00'') = get_or (docdt c) (str ''0000-00-00''))
                     docs = Some c)))"
proof (intro conjI impI)
  assume "\<not> latest_only self"
  then show "select_latest_documents self u docs = Some docs"
    by (simp add: select_latest_documents_def)
next
  assume latest: "latest_only self"
  have tag: "lang_key u = (\<lambda>d. str_lower u (get_or (lang d) (str ''xx'')))"
    by (rule ext) (simp add: lang_key_def)
  have date: "date_key = (\<lambda>d. get_or (docdt d) (str ''0000-00-00''))"
    by (rule ext) (simp add: date_key_def)
  from select_latest_documents_shape [OF latest, of u docs]
  show "\<exists>chosen. select_latest_documents self u docs = Some chosen
           \<and> distinct (map (\<lambda>d. str_lower u (get_or (lang d) (str ''xx''))) chosen)
           \<and> (\<lambda>d. str_lower u (get_or (lang d) (str ''xx''))) ` set chosen
               = (\<lambda>d. str_lower u (get_or (lang d) (str ''xx''))) ` set docs
           \<and> (\<forall>c \<in> set chosen. c \<in> set docs
                \<and> (\<forall>d \<in> set docs.
                      str_lower u (get_or (lang d) (str ''xx'')) = str_lower u (get_or (lang c) (str ''xx''))
                      \<longrightarrow> get_or (docdt d) (str ''0000-00-00'') \<le> get_or (docdt c) (str ''0000-00-00''))
                \<and> find (\<lambda>d. str_lower u (get_or (lang d) (str ''xx''))
                               = str_lower u (get_or (lang c) (str ''xx''))
                             \<and> get_or (docdt d) (str ''0000-00-00'') = get_or (docdt c) (str ''0000-00-00''))
                     docs = Some c)"
    unfolding tag date .
qed

theorem select_latest_documents_per_language_witness:
  "latest_only latest_downloader
   \<and> (\<exists>chosen. select_latest_documents latest_downloader ascii_tables mixed_docs = Some chosen
           \<and> distinct (map (\<lambda>d. str_lower ascii_tables (get_or (lang d) (str ''xx''))) chosen)
           \<and> (\<lambda>d. str_lower ascii_tables (get_or (lang d) (str ''xx''))) ` set chosen
               = (\<lambda>d. str_lower ascii_tables (get_or (lang d) (str ''xx''))) ` set mixed_docs)
   \<and> select_latest_documents latest_downloader ascii_tables mixed_docs
       = Some [french_first, english_2021, untagged_2017]
   \<and> map (\<lambda>d. str_lower ascii_tables (get_or (lang d) (str ''xx''))) [french_first, english_2021, untagged_2017]
       = [str ''fr'', str ''en'', str ''xx'']
   \<and> docdt french_first = docdt french_second
   \<and> select_latest_documents latest_downloader ascii_tables [english_2020, english_2021] = Some [english_2021]
   \<and> select_latest_documents latest_downloader ascii_tables [english_2021, english_2020] = Some [english_2021]
   \<and> \<not> latest_only default_downloader
   \<and> select_latest_documents default_downloader ascii_tables mixed_docs = Some mixed_docs"
proof -
  have on: "latest_only latest_downloader"
    by (simp add: latest_downloader_def init_def)
  have off: "\<not> latest_only default_downloader"
    by (simp add: default_downloader_def init_def)
  note latest = select_latest_documents_per_language [of latest_downloader ascii_tables mixed_docs]
  note plain = select_latest_documents_per_language [of default_downloader ascii_tables mixed_docs]
  have general: "\<exists>chosen. select_latest_documents latest_downloader ascii_tables mixed_docs = Some chosen
           \<and> distinct (map (\<lambda>d. str_lower ascii_tables (get_or (lang d) (str ''xx''))) chosen)
           \<and> (\<lambda>d. str_lower ascii_tables (get_or (lang d) (str ''xx''))) ` set chosen
               = (\<lambda>d. str_lower ascii_tables (get_or (lang d) (str ''xx''))) ` set mixed_docs
           \<and> (\<forall>c \<in> set chosen. c \<in> set mixed_docs
                \<and> (\<forall>d \<in> set mixed_docs.
                      str_lower ascii_tables (get_or (lang d) (str ''xx''))
                        = str_lower ascii_tables (get_or (lang c) (str ''xx''))
                      \<longrightarrow> get_or (docdt d) (str ''0000-00-00'') \<le> get_or (docdt c) (str ''0000-00-00''))
                \<and> find (\<lambda>d. str_lower ascii_tables (get_or (lang d) (str ''xx''))
                               = str_lower ascii_tables (get_or (lang c) (str ''xx''))
                             \<and> get_or (docdt d) (str ''0000-00-00'') = get_or (docdt c) (str ''0000-00-00''))
                     mixed_docs = Some c)"
    by (rule mp [OF conjunct2 [OF latest] on])
  then have shape: "\<exists>chosen. select_latest_documents latest_downloader ascii_tables mixed_docs = Some chosen
           \<and> distinct (map (\<lambda>d. str_lower ascii_tables (get_or (lang d) (str ''xx''))) chosen)
           \<and> (\<lambda>d. str_lower ascii_tables (get_or (lang d) (str ''xx''))) ` set chosen
               = (\<lambda>d. str_lower ascii_tables (get_or (lang d) (str ''xx''))) ` set mixed_docs"
    by (elim exE conjE, intro exI conjI)
  have a: "select_latest_documents latest_downloader ascii_tables mixed_docs
       = Some [french_first, english_2021, untagged_2017]"
    by code_simp
  have tags: "map (\<lambda>d. str_lower ascii_tables (get_or (lang d) (str ''xx'')))
        [french_first, english_2021, untagged_2017] = [str ''fr'', str ''en'', str ''xx'']"
    by code_simp
  have tie: "docdt french_first = docdt french_second"
    by (simp add: french_first_def french_second_def lang_doc_def)
  have b: "select_latest_documents latest_downloader ascii_tables [english_2020, english_2021] = Some [english_2021]"
    by code_simp
  have c: "select_latest_documents latest_downloader ascii_tables [english_2021, english_2020] = Some [english_2021]"
    by code_simp
  have d: "select_latest_documents default_downloader ascii_tables mixed_docs = Some mixed_docs"
    by (rule mp [OF conjunct1 [OF plain] off])
  show ?thesis
    using on shape a tags tie b c off d by (intro conjI)
qed

subsection \<open>Slugs\<close>

text \<open>
  Claim C9 says that every run of non-alphanumeric characters becomes a single hyphen,
  as does the comment in the body of \<open>slug\<close>. The first substitution of \<open>slug\<close> deletes
  every character that is not a word character, white space or a hyphen; only runs of
  white space and hyphens become a hyphen. For the title \<open>a.b\<close>, of which normalisation
  and \<open>lower\<close> change nothing and in which the full stop is neither a word character
  nor white space, the claim gives \<open>a-b\<close> and the code \<open>ab\<close>.
\<close>

theorem slug_deletes_punctuation:
  "slug ascii_tables (str ''a.b'') default_max_length = str ''ab''
   \<and> slug ascii_tables (str ''a.b'') default_max_length \<noteq> str ''a-b''"
  by code_simp

subsection \<open>Downloads\<close>

lemma download_pdf_keeps_files:
  "files s p = Some content \<Longrightarrow> files (snd (download_pdf self e u file_path s)) p = Some content"
  by (auto simp: download_pdf_def send_file_def path_exists_def Let_def
      split: prod.splits file_reply.splits)

lemma after_downloads_keeps_files:
  "files s p = Some content \<Longrightarrow> files (after_downloads self e calls s) p = Some content"
proof (induction calls arbitrary: s)
  case Nil
  then show ?case by simp
next
  case (Cons call calls)
  obtain u file_path where call: "call = (u, file_path)"
    by (cases call)
  from Cons.prems have "files (snd (download_pdf self e u file_path s)) p = Some content"
    by (rule download_pdf_keeps_files)
  then show ?case
    by (simp add: call Cons.IH)
qed




text \<open>
  Claim C10. In a run that is not a dry run, let the destination not exist and the
  request be answered with a status outside 400 to 599 and a body without a single
  byte. Then \<open>download_pdf\<close> returns \<open>(False, "failed", "")\<close> and leaves the empty file
  at the destination; and after any number of further calls of \<open>download_pdf\<close>, a call
  for the same destination returns \<open>(True, "skipped_existing", hash of the empty file)\<close>
  and sends no request.
\<close>

theorem zero_byte_download_sticks:
  assumes "\<not> dry_run self"
    and "files s file_path = None"
    and "file_server e (requests s) u = File_response code chunks broken"
    and "\<not> (400 \<le> code \<and> code < 600)"
    and "concat chunks = []"
  shows "fst (download_pdf self e u file_path s) = (False, str ''failed'', [])
    \<and> files (snd (download_pdf self e u file_path s)) file_path = Some []
    \<and> (\<forall>calls u'.
          download_pdf self e u' file_path
            (after_downloads self e calls (snd (download_pdf self e u file_path s)))
          = ((True, str ''skipped_existing'', sha256_hex e []),
             after_downloads self e calls (snd (download_pdf self e u file_path s))))"
proof -
  define s' where "s' = snd (download_pdf self e u file_path s)"
  have failed: "fst (download_pdf self e u file_path s) = (False, str ''failed'', [])"
    using assms
    by (simp add: download_pdf_def path_exists_def send_file_def Let_def file_size_def)
  have left: "files s' file_path = Some []"
    using assms
    by (simp add: s'_def download_pdf_def path_exists_def send_file_def Let_def file_size_def)
  have later: "download_pdf self e u' file_path (after_downloads self e calls s')
          = ((True, str ''skipped_existing'', sha256_hex e []), after_downloads self e calls s')"
    for calls u'
  proof -
    have "files (after_downloads self e calls s') file_path = Some []"
      using left by (rule after_downloads_keeps_files)
    with assms(1) show ?thesis
      by (simp add: download_pdf_def path_exists_def get_file_hash_def)
  qed
  from failed left later show ?thesis
    unfolding s'_def by blast
qed

theorem zero_byte_download_sticks_witness:
  "\<not> dry_run default_downloader
   \<and> files fresh_run report_path = None
   \<and> file_server empty_body_env (requests fresh_run) report_url = File_response 200 [] False
   \<and> fst (download_pdf default_downloader empty_body_env report_url report_path fresh_run)
       = (False, str ''failed'', [])
   \<and> files (snd (download_pdf default_downloader empty_body_env report_url report_path fresh_run))
        report_path = Some []
   \<and> fst (download_pdf default_downloader empty_body_env report_url report_path
        (after_downloads default_downloader empty_body_env [(report_url, str ''downloads/other.pdf'')]
          (snd (download_pdf default_downloader empty_body_env report_url report_path fresh_run))))
       = (True, str ''skipped_existing'', str ''sha256:'')"
proof -
  have live: "\<not> dry_run default_downloader"
    by (simp add: default_downloader_def init_def)
  have absent: "files fresh_run report_path = None"
    by (simp add: fresh_run_def)
  have reply: "file_server empty_body_env (requests fresh_run) report_url = File_response 200 [] False"
    by (simp add: empty_body_env_def)
  have sticks:
    "fst (download_pdf default_downloader empty_body_env report_url report_path fresh_run)
       = (False, str ''failed'', [])
     \<and> files (snd (download_pdf default_downloader empty_body_env report_url report_path fresh_run))
         report_path = Some []
     \<and> (\<forall>calls u'.
          download_pdf default_downloader empty_body_env u' report_path
            (after_downloads default_downloader empty_body_env calls
              (snd (download_pdf default_downloader empty_body_env report_url report_path fresh_run)))
          = ((True, str ''skipped_existing'', sha256_hex empty_body_env []),
             after_downloads default_downloader empty_body_env calls
               (snd (download_pdf default_downloader empty_body_env report_url report_path fresh_run))))"
    by (rule zero_byte_download_sticks [OF live absent reply]) simp_all
  have hash: "sha256_hex empty_body_env [] = str ''sha256:''"
    by (simp add: empty_body_env_def plain_env_def)
  have later: "download_pdf default_downloader empty_body_env report_url report_path
        (after_downloads default_downloader empty_body_env [(report_url, str ''downloads/other.pdf'')]
          (snd (download_pdf default_downloader empty_body_env report_url report_path fresh_run)))
       = ((True, str ''skipped_existing'', sha256_hex empty_body_env []),
          after_downloads default_downloader empty_body_env [(report_url, str ''downloads/other.pdf'')]
            (snd (download_pdf default_downloader empty_body_env report_url report_path fresh_run)))"
    by (rule spec [OF spec [OF conjunct2 [OF conjunct2 [OF sticks]]]])
  have again: "fst (download_pdf default_downloader empty_body_env report_url report_path
        (after_downloads default_downloader empty_body_env [(report_url, str ''downloads/other.pdf'')]
          (snd (download_pdf default_downloader empty_body_env report_url report_path fresh_run))))
       = (True, str ''skipped_existing'', str ''sha256:'')"
    by (simp only: later hash fst_conv)
  show ?thesis
    using live absent reply conjunct1 [OF sticks] conjunct1 [OF conjunct2 [OF sticks]] again
    by (intro conjI)
qed

subsection \<open>Retries\<close>

lemma nth_reply_0: "nth_reply e project_id offset s 0 = wds e (requests s) project_id offset"
  by (simp add: nth_reply_def)

lemma nth_reply_shift:
  "nth_reply e project_id offset
     (sleep d (s\<lparr>requests := requests s @ [Api_get project_id (str ''200'') offset]\<rparr>)) j
   = nth_reply e project_id offset s (Suc j)"
  by (simp add: nth_reply_def sleep_def replicate_app_Cons_same)

lemma after_attempts_shift:
  "after_attempts project_id offset
     (sleep (base_delay * 2 ^ a) (s\<lparr>requests := requests s @ [Api_get project_id (str ''200'') offset]\<rparr>))
     n slept
   = after_attempts project_id offset s (Suc n) (a # slept)"
  by (simp add: after_attempts_def sleep_def replicate_app_Cons_same)

lemma attempts_retry:
  "retryable (nth_reply e project_id offset s 0) \<Longrightarrow>
   attempts e project_id offset (a # rest) s
   = attempts e project_id offset rest
       (sleep (base_delay * 2 ^ a) (s\<lparr>requests := requests s @ [Api_get project_id (str ''200'') offset]\<rparr>))"
  by (auto simp: nth_reply_0 retryable_def send_api_def split: api_reply.splits)

lemma attempts_exhausted:
  "\<forall>j < length as. retryable (nth_reply e project_id offset s j) \<Longrightarrow>
   attempts e project_id offset as s = (Empty_obj, after_attempts project_id offset s (length as) as)"
proof (induction as arbitrary: s)
  case Nil
  then show ?case by (simp add: after_attempts_def)
next
  case (Cons a as)
  let ?s1 = "sleep (base_delay * 2 ^ a) (s\<lparr>requests := requests s @ [Api_get project_id (str ''200'') offset]\<rparr>)"
  from Cons.prems have first: "retryable (nth_reply e project_id offset s 0)"
    by auto
  from Cons.prems have "\<forall>j < length as. retryable (nth_reply e project_id offset ?s1 j)"
    by (auto simp: nth_reply_shift)
  then have "attempts e project_id offset as ?s1
      = (Empty_obj, after_attempts project_id offset ?s1 (length as) as)"
    by (rule Cons.IH)
  then show ?case
    by (simp add: attempts_retry [OF first] after_attempts_shift del: attempts.simps)
qed

lemma attempts_answered:
  "k < length as \<Longrightarrow>
   \<forall>j < k. retryable (nth_reply e project_id offset s j) \<Longrightarrow>
   nth_reply e project_id offset s k = Api_response code body \<Longrightarrow>
   code = 200 \<or> rejected (Api_response code body) \<Longrightarrow>
   attempts e project_id offset as s
   = (if code = 200 then body else Empty_obj,
      after_attempts project_id offset s (Suc k) (take k as))"
proof (induction as arbitrary: s k)
  case Nil
  then show ?case by simp
next
  case (Cons a as)
  show ?case
  proof (cases k)
    case 0
    with Cons.prems show ?thesis
      by (auto simp: nth_reply_0 send_api_def rejected_def after_attempts_def)
  next
    case (Suc k')
    let ?s1 = "sleep (base_delay * 2 ^ a) (s\<lparr>requests := requests s @ [Api_get project_id (str ''200'') offset]\<rparr>)"
    from Cons.prems Suc have first: "retryable (nth_reply e project_id offset s 0)"
      by auto
    from Cons.prems Suc have "k' < length as"
      "\<forall>j < k'. retryable (nth_reply e project_id offset ?s1 j)"
      "nth_reply e project_id offset ?s1 k' = Api_response code body"
      by (auto simp: nth_reply_shift)
    from Cons.IH [OF this Cons.prems(4)]
    show ?thesis
      by (simp add: attempts_retry [OF first] after_attempts_shift Suc del: attempts.simps)
  qed
qed

lemma fetch_pages_stops_on_empty:
  "call_wds_api e project_id offset s = (Empty_obj, s1) \<Longrightarrow>
   fetch_pages e project_id offset all_docs s = Some (all_docs, s1)"
  by (subst fetch_pages.simps) simp

text \<open>
  Claim C3. A call of the API makes at most \<open>max_retries = 3\<close> attempts. An attempt
  that meets an exception of the transport, status 429 or a status from 500 on is
  followed by a delay of \<open>base_delay * 2 ^ attempt\<close> seconds (1, 2, 4) and by the next
  attempt; status 200 ends the call with the body; any other status (every 4xx but
  429 among them) ends the call at once with the empty object. When the attempts are
  used up the call returns the empty object, the page loop returns the documents it
  has so far, and a project whose every request fails gets a summary without PID and
  PAD after exactly three requests.
\<close>

theorem call_wds_api_retries:
  "(k < max_retries \<and> (\<forall>j < k. retryable (nth_reply e project_id offset s j))
      \<and> nth_reply e project_id offset s k = Api_response 200 body
      \<longrightarrow> call_wds_api e project_id offset s
           = (body, after_attempts project_id offset s (Suc k) [0..<k]))
   \<and> (k < max_retries \<and> (\<forall>j < k. retryable (nth_reply e project_id offset s j))
      \<and> rejected (nth_reply e project_id offset s k)
      \<longrightarrow> call_wds_api e project_id offset s
           = (Empty_obj, after_attempts project_id offset s (Suc k) [0..<k])
        \<and> fetch_pages e project_id offset all_docs s
           = Some (all_docs, after_attempts project_id offset s (Suc k) [0..<k]))
   \<and> ((\<forall>j < max_retries. retryable (nth_reply e project_id offset s j))
      \<longrightarrow> call_wds_api e project_id offset s
           = (Empty_obj, after_attempts project_id offset s max_retries [0..<max_retries])
        \<and> fetch_pages e project_id offset all_docs s
           = Some (all_docs, after_attempts project_id offset s max_retries [0..<max_retries]))
   \<and> ((\<forall>history p offs. retryable (wds e history p offs))
      \<longrightarrow> process_project self e project_id country project_name s
           = Some (create_project_summary project_id country project_name False False 0 0 [] [],
                   after_attempts project_id 0 s max_retries [0..<max_retries]))"
proof (intro conjI impI)
  assume a: "k < max_retries \<and> (\<forall>j < k. retryable (nth_reply e project_id offset s j))
      \<and> nth_reply e project_id offset s k = Api_response 200 body"
  then have "k < length [0..<max_retries]" by simp
  from attempts_answered [OF this, of e project_id offset s 200 body] a
  show "call_wds_api e project_id offset s
           = (body, after_attempts project_id offset s (Suc k) [0..<k])"
    by (simp add: call_wds_api_def take_upt)
next
  assume a: "k < max_retries \<and> (\<forall>j < k. retryable (nth_reply e project_id offset s j))
      \<and> rejected (nth_reply e project_id offset s k)"
  then obtain code body where reply: "nth_reply e project_id offset s k = Api_response code body"
    by (cases "nth_reply e project_id offset s k") (auto simp: rejected_def)
  with a have rej: "rejected (Api_response code body)" "code \<noteq> 200"
    by (auto simp: rejected_def)
  from a have "k < length [0..<max_retries]" by simp
  from attempts_answered [OF this, of e project_id offset s code body] a reply rej
  show call: "call_wds_api e project_id offset s
           = (Empty_obj, after_attempts project_id offset s (Suc k) [0..<k])"
    by (simp add: call_wds_api_def take_upt)
  then show "fetch_pages e project_id offset all_docs s
           = Some (all_docs, after_attempts project_id offset s (Suc k) [0..<k])"
    by (rule fetch_pages_stops_on_empty)
next
  assume a: "\<forall>j < max_retries. retryable (nth_reply e project_id offset s j)"
  then have "\<forall>j < length [0..<max_retries]. retryable (nth_reply e project_id offset s j)"
    by simp
  from attempts_exhausted [OF this]
  show call: "call_wds_api e project_id offset s
           = (Empty_obj, after_attempts project_id offset s max_retries [0..<max_retries])"
    by (simp add: call_wds_api_def)
  then show "fetch_pages e project_id offset all_docs s
           = Some (all_docs, after_attempts project_id offset s max_retries [0..<max_retries])"
    by (rule fetch_pages_stops_on_empty)
next
  assume a: "\<forall>history p offs. retryable (wds e history p offs)"
  then have "\<forall>j < length [0..<max_retries]. retryable (nth_reply e project_id 0 s j)"
    by (simp add: nth_reply_def)
  from attempts_exhausted [OF this]
  have "call_wds_api e project_id 0 s
           = (Empty_obj, after_attempts project_id 0 s max_retries [0..<max_retries])"
    by (simp add: call_wds_api_def)
  then have "get_project_documents e project_id s
           = Some ([], after_attempts project_id 0 s max_retries [0..<max_retries])"
    unfolding get_project_documents_def by (rule fetch_pages_stops_on_empty)
  then show "process_project self e project_id country project_name s
           = Some (create_project_summary project_id country project_name False False 0 0 [] [],
                   after_attempts project_id 0 s max_retries [0..<max_retries])"
    by (simp add: process_project_def)
qed

theorem call_wds_api_retries_witness:
  "retryable (wds unavailable_env [] (str ''P000001'') 0)
   \<and> process_project default_downloader unavailable_env (str ''P000001'') (str ''Kenya'') (str ''Rural Roads'') fresh_run
      = Some (create_project_summary (str ''P000001'') (str ''Kenya'') (str ''Rural Roads'') False False 0 0 [] [],
              fresh_run\<lparr>requests := [Api_get (str ''P000001'') (str ''200'') 0, Api_get (str ''P000001'') (str ''200'') 0,
                                     Api_get (str ''P000001'') (str ''200'') 0],
                        sleeps := [1, 2, 4]\<rparr>)
   \<and> has_pid (create_project_summary (str ''P000001'') (str ''Kenya'') (str ''Rural Roads'') False False 0 0 [] []) = False
   \<and> has_pad (create_project_summary (str ''P000001'') (str ''Kenya'') (str ''Rural Roads'') False False 0 0 [] []) = False"
proof -
  have always: "\<forall>history p offs. retryable (wds unavailable_env history p offs)"
    by (simp add: unavailable_env_def retryable_def)
  then have one: "retryable (wds unavailable_env [] (str ''P000001'') 0)"
    by simp
  have general: "process_project default_downloader unavailable_env (str ''P000001'') (str ''Kenya'') (str ''Rural Roads'') fresh_run
      = Some (create_project_summary (str ''P000001'') (str ''Kenya'') (str ''Rural Roads'') False False 0 0 [] [],
              after_attempts (str ''P000001'') 0 fresh_run max_retries [0..<max_retries])"
    using call_wds_api_retries [of 0 unavailable_env "str ''P000001''" 0 fresh_run Empty_obj "[]"
        default_downloader "str ''Kenya''" "str ''Rural Roads''"] always
    by blast
  have state: "after_attempts (str ''P000001'') 0 fresh_run max_retries [0..<max_retries]
      = fresh_run\<lparr>requests := [Api_get (str ''P000001'') (str ''200'') 0, Api_get (str ''P000001'') (str ''200'') 0,
                                     Api_get (str ''P000001'') (str ''200'') 0],
                        sleeps := [1, 2, 4]\<rparr>"
    by (simp add: after_attempts_def max_retries_def base_delay_def fresh_run_def eval_nat_numeral)
  have summary: "has_pid (create_project_summary (str ''P000001'') (str ''Kenya'') (str ''Rural Roads'') False False 0 0 [] []) = False"
    "has_pad (create_project_summary (str ''P000001'') (str ''Kenya'') (str ''Rural Roads'') False False 0 0 [] []) = False"
    by (simp_all add: create_project_summary_def)
  show ?thesis
    using one general [unfolded state] summary by (intro conjI)
qed

subsection \<open>Pagination\<close>

lemma fetch_pages_full_page:
  "length (page_records e project_id s m) \<ge> 200 \<Longrightarrow>
   fetch_pages e project_id (200 * m) acc (page_state e project_id s m)
   = fetch_pages e project_id (200 * Suc m) (acc @ page_records e project_id s m)
       (page_state e project_id s (Suc m))"
  by (subst fetch_pages.simps)
     (auto simp: page_records_def add.commute split: prod.splits option.splits)

lemma fetch_pages_short_page:
  "length (page_records e project_id s m) < 200 \<Longrightarrow>
   fetch_pages e project_id (200 * m) acc (page_state e project_id s m)
   = Some (acc @ page_records e project_id s m, page_state e project_id s (Suc m))"
  by (subst fetch_pages.simps)
     (auto simp: page_records_def add.commute split: prod.splits option.splits)

lemma fetch_pages_until_short:
  "\<forall>k < j. length (page_records e project_id s (m + k)) \<ge> 200 \<Longrightarrow>
   length (page_records e project_id s (m + j)) < 200 \<Longrightarrow>
   fetch_pages e project_id (200 * m) acc (page_state e project_id s m)
   = Some (acc @ concat (map (page_records e project_id s) [m..<Suc (m + j)]),
           page_state e project_id s (Suc (m + j)))"
proof (induction j arbitrary: m acc)
  case 0
  then show ?case
    by (simp add: fetch_pages_short_page)
next
  case (Suc j)
  from Suc.prems(1) have full: "length (page_records e project_id s m) \<ge> 200"
    by (metis add.right_neutral zero_less_Suc)
  from Suc.prems have "\<forall>k < j. length (page_records e project_id s (Suc m + k)) \<ge> 200"
    "length (page_records e project_id s (Suc m + j)) < 200"
    by auto
  from Suc.IH [OF this]
  have "fetch_pages e project_id (200 * Suc m) (acc @ page_records e project_id s m)
          (page_state e project_id s (Suc m))
        = Some ((acc @ page_records e project_id s m)
                  @ concat (map (page_records e project_id s) [Suc m..<Suc (Suc m + j)]),
                page_state e project_id s (Suc (Suc m + j)))" .
  then show ?case
    by (simp add: fetch_pages_full_page [OF full] upt_conv_Cons del: upt_Suc)
qed

lemma fetch_pages_returns_short:
  assumes ret: "fetch_pages e0 p0 offset0 docs0 st0 = Some y0"
  shows "\<forall>s m. offset0 = 200 * m \<and> st0 = page_state e0 p0 s m
           \<longrightarrow> (\<exists>k. length (page_records e0 p0 s k) < 200)"
proof (rule fetch_pages.raw_induct
    [where P = "\<lambda>e p offset all_docs st y. \<forall>s m. offset = 200 * m \<and> st = page_state e p s m
           \<longrightarrow> (\<exists>k. length (page_records e p s k) < 200)", OF _ ret])
  fix f e p offset all_docs st y
  assume IH: "\<And>e p offset all_docs st y. f e p offset all_docs st = Some y \<Longrightarrow>
        \<forall>s m. offset = 200 * m \<and> st = page_state e p s m
           \<longrightarrow> (\<exists>k. length (page_records e p s k) < 200)"
    and body: "(case call_wds_api e p offset st of
        (response, s1) \<Rightarrow>
          (case page_docs response of
             None \<Rightarrow> Some (all_docs, s1)
           | Some docs \<Rightarrow>
               if docs = [] then Some (all_docs, s1)
               else if length docs < 200 then Some (all_docs @ docs, s1)
               else f e p (offset + 200) (all_docs @ docs) s1)) = Some y"
  show "\<forall>s m. offset = 200 * m \<and> st = page_state e p s m
           \<longrightarrow> (\<exists>k. length (page_records e p s k) < 200)"
  proof (intro allI impI)
    fix s m
    assume at: "offset = 200 * m \<and> st = page_state e p s m"
    obtain response s1 where call:
      "call_wds_api e p (200 * m) (page_state e p s m) = (response, s1)"
      by (cases "call_wds_api e p (200 * m) (page_state e p s m)")
    then have s1: "s1 = page_state e p s (Suc m)"
      by simp
    show "\<exists>k. length (page_records e p s k) < 200"
    proof (cases "length (page_records e p s m) < 200")
      case True
      then show ?thesis by blast
    next
      case False
      with call obtain docs where docs: "page_docs response = Some docs" "length docs \<ge> 200"
        by (cases "page_docs response") (auto simp: page_records_def)
      then have "docs \<noteq> []" "\<not> length docs < 200"
        by auto
      with body at call docs
      have "f e p (200 * m + 200) (all_docs @ docs) s1 = Some y"
        by simp
      from IH [OF this] have
        "200 * m + 200 = 200 * Suc m \<and> s1 = page_state e p s (Suc m)
           \<longrightarrow> (\<exists>k. length (page_records e p s k) < 200)"
        by blast
      with s1 show ?thesis by simp
    qed
  qed
qed

lemma fetch_pages_never_short:
  assumes full: "\<forall>k. length (page_records e project_id s k) \<ge> 200"
  shows "fetch_pages e project_id (200 * m) acc (page_state e project_id s m) = None"
proof (rule ccontr)
  assume "fetch_pages e project_id (200 * m) acc (page_state e project_id s m) \<noteq> None"
  then obtain y where "fetch_pages e project_id (200 * m) acc (page_state e project_id s m) = Some y"
    by blast
  from fetch_pages_returns_short [OF this]
  have "\<exists>k. length (page_records e project_id s k) < 200"
    by blast
  with full show False
    by (meson not_less)
qed

lemma attempts_requests:
  "\<exists>n. n \<le> length as \<and> (as \<noteq> [] \<longrightarrow> 0 < n)
     \<and> requests (snd (attempts e project_id offset as s))
         = requests s @ replicate n (Api_get project_id (str ''200'') offset)"
proof (induction as arbitrary: s)
  case Nil
  then show ?case by simp
next
  case (Cons a as)
  let ?s1 = "sleep (base_delay * 2 ^ a) (s\<lparr>requests := requests s @ [Api_get project_id (str ''200'') offset]\<rparr>)"
  from Cons.IH [of ?s1] obtain n where n: "n \<le> length as"
    "requests (snd (attempts e project_id offset as ?s1))
       = requests ?s1 @ replicate n (Api_get project_id (str ''200'') offset)"
    by blast
  then have again: "requests (snd (attempts e project_id offset as ?s1))
       = requests s @ replicate (Suc n) (Api_get project_id (str ''200'') offset)"
    by (simp add: sleep_def replicate_app_Cons_same)
  have once: "requests s @ [Api_get project_id (str ''200'') offset]
       = requests s @ replicate (Suc 0) (Api_get project_id (str ''200'') offset)"
    by simp
  show ?case
  proof (cases "wds e (requests s) project_id offset")
    case Api_exception
    then have "requests (snd (attempts e project_id offset (a # as) s))
        = requests s @ replicate (Suc n) (Api_get project_id (str ''200'') offset)"
      using again by (simp add: send_api_def)
    with n(1) show ?thesis
      by (intro exI [of _ "Suc n"]) simp
  next
    case (Api_response code body)
    show ?thesis
    proof (cases "code \<noteq> 200 \<and> (code = 429 \<or> code \<ge> 500)")
      case True
      with Api_response have "requests (snd (attempts e project_id offset (a # as) s))
          = requests s @ replicate (Suc n) (Api_get project_id (str ''200'') offset)"
        using again by (auto simp: send_api_def)
      with n(1) show ?thesis
        by (intro exI [of _ "Suc n"]) simp
    next
      case False
      with Api_response have "requests (snd (attempts e project_id offset (a # as) s))
          = requests s @ replicate (Suc 0) (Api_get project_id (str ''200'') offset)"
        by (auto simp: send_api_def)
      then show ?thesis
        by (intro exI [of _ "Suc 0"]) simp
    qed
  qed
qed

text \<open>
  Claim C2. The fetch asks for the pages at the offsets 0, 200, 400 and so on, each
  page request sending between one and three requests with \<open>rows = 200\<close> and the
  offset of the page. If the pages before page \<open>n\<close> have 200 records or more and
  page \<open>n\<close> has fewer (none included), the fetch makes exactly \<open>n + 1\<close> page requests and
  returns the records of all of them, in order. If no page ever has fewer than 200
  records, the fetch does not return.
\<close>

theorem get_project_documents_pages:
  "((\<forall>k < n. 200 \<le> length (page_records e project_id s k))
       \<and> length (page_records e project_id s n) < 200
      \<longrightarrow> get_project_documents e project_id s
           = Some (concat (map (page_records e project_id s) [0..<Suc n]),
                   page_state e project_id s (Suc n)))
   \<and> ((\<forall>k. 200 \<le> length (page_records e project_id s k))
      \<longrightarrow> get_project_documents e project_id s = None)
   \<and> (\<exists>sent. 0 < sent \<and> sent \<le> max_retries
         \<and> requests (page_state e project_id s (Suc n))
            = requests (page_state e project_id s n)
              @ replicate sent (Api_get project_id (str ''200'') (200 * n)))"
proof (intro conjI impI)
  assume "(\<forall>k < n. 200 \<le> length (page_records e project_id s k))
       \<and> length (page_records e project_id s n) < 200"
  then have "\<forall>k < n. length (page_records e project_id s (0 + k)) \<ge> 200"
    "length (page_records e project_id s (0 + n)) < 200"
    by auto
  from fetch_pages_until_short [OF this, of "[]"]
  show "get_project_documents e project_id s
           = Some (concat (map (page_records e project_id s) [0..<Suc n]),
                   page_state e project_id s (Suc n))"
    by (simp add: get_project_documents_def del: upt_Suc)
next
  assume "\<forall>k. 200 \<le> length (page_records e project_id s k)"
  from fetch_pages_never_short [OF this, of 0 "[]"]
  show "get_project_documents e project_id s = None"
    by (simp add: get_project_documents_def)
next
  from attempts_requests [of "[0..<max_retries]" e project_id "200 * n" "page_state e project_id s n"]
  show "\<exists>sent. 0 < sent \<and> sent \<le> max_retries
         \<and> requests (page_state e project_id s (Suc n))
            = requests (page_state e project_id s n)
              @ replicate sent (Api_get project_id (str ''200'') (200 * n))"
    by (auto simp: call_wds_api_def max_retries_def)
qed

theorem get_project_documents_pages_witness:
  "length (page_records three_page_env (str ''P000001'') fresh_run 0) = 200
   \<and> length (page_records three_page_env (str ''P000001'') fresh_run 1) = 200
   \<and> length (page_records three_page_env (str ''P000001'') fresh_run 2) = 47
   \<and> get_project_documents three_page_env (str ''P000001'') fresh_run
      = Some (replicate 200 german_pid @ replicate 200 german_pid @ replicate 47 german_pid,
              fresh_run\<lparr>requests := [Api_get (str ''P000001'') (str ''200'') 0, Api_get (str ''P000001'') (str ''200'') 200,
                                     Api_get (str ''P000001'') (str ''200'') 400]\<rparr>)
   \<and> length (replicate 200 german_pid @ replicate 200 german_pid @ replicate 47 german_pid) = 447"
proof -
  have range: "[0..<max_retries] = [0, 1, 2]"
    by (simp add: max_retries_def upt_rec)
  have call: "call_wds_api three_page_env (str ''P000001'') offset s
      = (Response_obj (Some (replicate (if length (requests s) < 2 then 200 else 47) german_pid)),
         s\<lparr>requests := requests s @ [Api_get (str ''P000001'') (str ''200'') offset]\<rparr>)" for offset s
    by (simp add: call_wds_api_def range send_api_def three_page_env_def)
  have s1: "page_state three_page_env (str ''P000001'') fresh_run (Suc 0)
      = fresh_run\<lparr>requests := [Api_get (str ''P000001'') (str ''200'') 0]\<rparr>"
    by (simp add: call fresh_run_def)
  have s2: "page_state three_page_env (str ''P000001'') fresh_run (Suc (Suc 0))
      = fresh_run\<lparr>requests := [Api_get (str ''P000001'') (str ''200'') 0, Api_get (str ''P000001'') (str ''200'') 200]\<rparr>"
    by (simp add: call fresh_run_def)
  have s3: "page_state three_page_env (str ''P000001'') fresh_run (Suc (Suc (Suc 0)))
      = fresh_run\<lparr>requests := [Api_get (str ''P000001'') (str ''200'') 0, Api_get (str ''P000001'') (str ''200'') 200,
                                     Api_get (str ''P000001'') (str ''200'') 400]\<rparr>"
    by (simp add: call fresh_run_def)
  have r0: "page_records three_page_env (str ''P000001'') fresh_run 0 = replicate 200 german_pid"
    by (simp add: page_records_def call get_or_def fresh_run_def)
  have r1: "page_records three_page_env (str ''P000001'') fresh_run (Suc 0) = replicate 200 german_pid"
    by (simp add: page_records_def call get_or_def fresh_run_def)
  have r2: "page_records three_page_env (str ''P000001'') fresh_run (Suc (Suc 0)) = replicate 47 german_pid"
    by (simp add: page_records_def call get_or_def fresh_run_def)
  have full: "\<forall>k < Suc (Suc 0). 200 \<le> length (page_records three_page_env (str ''P000001'') fresh_run k)"
    by (simp add: less_Suc_eq r0 r1)
  have short: "length (page_records three_page_env (str ''P000001'') fresh_run (Suc (Suc 0))) < 200"
    by (simp add: r2)
  from get_project_documents_pages [of "Suc (Suc 0)" three_page_env "str ''P000001''" fresh_run] full short
  have "get_project_documents three_page_env (str ''P000001'') fresh_run
      = Some (concat (map (page_records three_page_env (str ''P000001'') fresh_run) [0..<Suc (Suc (Suc 0))]),
              page_state three_page_env (str ''P000001'') fresh_run (Suc (Suc (Suc 0))))"
    by blast
  then have fetched: "get_project_documents three_page_env (str ''P000001'') fresh_run
      = Some (replicate 200 german_pid @ replicate 200 german_pid @ replicate 47 german_pid,
              fresh_run\<lparr>requests := [Api_get (str ''P000001'') (str ''200'') 0, Api_get (str ''P000001'') (str ''200'') 200,
                                     Api_get (str ''P000001'') (str ''200'') 400]\<rparr>)"
    unfolding s3 by (simp add: r0 r1 r2 upt_rec)
  have l0: "length (page_records three_page_env (str ''P000001'') fresh_run 0) = 200"
    by (simp add: r0)
  have l1: "length (page_records three_page_env (str ''P000001'') fresh_run 1) = 200"
    using r1 by simp
  have l2: "length (page_records three_page_env (str ''P000001'') fresh_run 2) = 47"
    using r2 by (simp add: numeral_2_eq_2)
  have total: "length (replicate 200 german_pid @ replicate 200 german_pid @ replicate 47 german_pid) = 447"
    by simp
  show ?thesis
    using l0 l1 l2 fetched total by (intro conjI)
qed

subsection \<open>Project summaries\<close>

lemma download_each_paths:
  "fst (download_each self e t project_id country project_name ds paths s)
   = paths @ map (\<lambda>d. get_document_path self e d t project_id country project_name) ds"
  by (induction ds arbitrary: paths s) (auto split: prod.splits)

lemma select_latest_documents_total: "\<exists>chosen. select_latest_documents self u docs = Some chosen"
proof (cases "latest_only self")
  case False
  then show ?thesis by (simp add: select_latest_documents_def)
next
  case True
  define pick where "pick = (\<lambda>(l :: ustring, lang_docs). first_item (sorted_reverse date_key lang_docs))"
  have "pick g = Some (the (pick g))" if "g \<in> set (group_by_lang u docs)" for g
  proof -
    obtain l ds where g: "g = (l, ds)" by (cases g)
    with that latest_of_group [of l ds u docs] obtain c where "pick g = Some c"
      by (auto simp: pick_def)
    then show ?thesis by simp
  qed
  then have "map pick (group_by_lang u docs) = map Some (map (\<lambda>g. the (pick g)) (group_by_lang u docs))"
    by simp
  then have "collect (map pick (group_by_lang u docs)) = Some (map (\<lambda>g. the (pick g)) (group_by_lang u docs))"
    by (simp only: collect_map_Some)
  with True show ?thesis
    by (simp add: select_latest_documents_def pick_def [symmetric])
qed

lemma selected_docs_total: "\<exists>chosen. selected_docs self u type_docs = Some chosen"
  using select_latest_documents_total by (simp add: selected_docs_def)

lemma selected_docs_Nil: "selected_docs self u [] = Some []"
  by (simp add: selected_docs_def select_documents_by_language_def select_latest_documents_def
      group_by_lang_def)

lemma process_type_paths:
  assumes "selected_docs self (tables e) type_docs = Some chosen"
  shows "\<exists>s'. process_type self e t project_id country project_name type_docs s
           = Some (map (\<lambda>d. get_document_path self e d t project_id country project_name) chosen, s')"
proof (cases "type_docs = []")
  case True
  with assms have "chosen = []"
    by (simp add: selected_docs_Nil)
  with True show ?thesis
    by (simp add: process_type_def)
next
  case False
  let ?r = "download_each self e t project_id country project_name chosen [] s"
  from False assms have "process_type self e t project_id country project_name type_docs s = Some ?r"
    by (simp add: process_type_def selected_docs_def Let_def)
  moreover have "fst ?r = map (\<lambda>d. get_document_path self e d t project_id country project_name) chosen"
    by (simp add: download_each_paths)
  ultimately show ?thesis
    by (metis prod.collapse)
qed

lemma filter_documents_eq:
  "filter_documents self u docs = (pid_docs self u docs, pad_docs self u docs)"
  using filter_documents_fst [of self u docs] filter_documents_snd [of self u docs]
  by (simp add: pid_docs_def pad_docs_def prod_eq_iff)

lemma process_project_returns:
  assumes fetched: "get_project_documents e project_id s = Some (docs, s1)"
    and pids: "selected_docs self (tables e) (pid_docs self (tables e) docs) = Some pid_sel"
    and pads: "selected_docs self (tables e) (pad_docs self (tables e) docs) = Some pad_sel"
  shows "\<exists>s'. process_project self e project_id country project_name s
           = Some (create_project_summary project_id country project_name
                     (0 < length (pid_docs self (tables e) docs)) (0 < length (pad_docs self (tables e) docs))
                     (length (pid_docs self (tables e) docs)) (length (pad_docs self (tables e) docs))
                     (map (\<lambda>d. get_document_path self e d PID project_id country project_name) pid_sel)
                     (map (\<lambda>d. get_document_path self e d PAD project_id country project_name) pad_sel),
                   s')"
proof (cases "docs = []")
  case True
  with pids pads have "pid_sel = []" "pad_sel = []"
    by (simp_all add: pid_docs_def pad_docs_def selected_docs_Nil)
  with True fetched show ?thesis
    by (simp add: process_project_def pid_docs_def pad_docs_def)
next
  case False
  from process_type_paths [OF pids, of PID project_id country project_name s1]
  obtain s2 where pid_round: "process_type self e PID project_id country project_name (pid_docs self (tables e) docs) s1
      = Some (map (\<lambda>d. get_document_path self e d PID project_id country project_name) pid_sel, s2)"
    by blast
  from process_type_paths [OF pads, of PAD project_id country project_name s2]
  obtain s3 where pad_round: "process_type self e PAD project_id country project_name (pad_docs self (tables e) docs) s2
      = Some (map (\<lambda>d. get_document_path self e d PAD project_id country project_name) pad_sel, s3)"
    by blast
  from False fetched pid_round pad_round show ?thesis
    by (simp add: process_project_def filter_documents_eq Let_def)
qed

text \<open>
  Claim C7. Whenever the fetch returns, \<open>process_project\<close> returns a summary whose
  counts are the numbers of fetched documents that classify as PID and as PAD, and
  whose flags say whether these numbers are positive: neither the language mode nor
  \<open>latest_only\<close> enters. The numbers are those of the classified documents, not of the
  selected ones.
\<close>

theorem summary_counts_before_selection:
  "get_project_documents e project_id s = Some (docs, s1) \<longrightarrow>
     (\<exists>sm s'. process_project self e project_id country project_name s = Some (sm, s')
        \<and> pid_count sm = length (pid_docs self (tables e) docs)
        \<and> pad_count sm = length (pad_docs self (tables e) docs)
        \<and> has_pid sm = (0 < length (pid_docs self (tables e) docs))
        \<and> has_pad sm = (0 < length (pad_docs self (tables e) docs)))"
proof
  assume fetched: "get_project_documents e project_id s = Some (docs, s1)"
  obtain pid_sel pad_sel where sel:
    "selected_docs self (tables e) (pid_docs self (tables e) docs) = Some pid_sel"
    "selected_docs self (tables e) (pad_docs self (tables e) docs) = Some pad_sel"
    using selected_docs_total by blast
  from process_project_returns [OF fetched sel, of country project_name]
  obtain s' where "process_project self e project_id country project_name s
           = Some (create_project_summary project_id country project_name
                     (0 < length (pid_docs self (tables e) docs)) (0 < length (pad_docs self (tables e) docs))
                     (length (pid_docs self (tables e) docs)) (length (pad_docs self (tables e) docs))
                     (map (\<lambda>d. get_document_path self e d PID project_id country project_name) pid_sel)
                     (map (\<lambda>d. get_document_path self e d PAD project_id country project_name) pad_sel),
                   s')"
    by blast
  then show "\<exists>sm s'. process_project self e project_id country project_name s = Some (sm, s')
        \<and> pid_count sm = length (pid_docs self (tables e) docs)
        \<and> pad_count sm = length (pad_docs self (tables e) docs)
        \<and> has_pid sm = (0 < length (pid_docs self (tables e) docs))
        \<and> has_pad sm = (0 < length (pad_docs self (tables e) docs))"
    by (simp add: create_project_summary_def)
qed

theorem summary_counts_before_selection_witness:
  "fetched_docs (get_project_documents two_pid_env (str ''P000001'') fresh_run)
     = Some [english_2020, english_2021]
   \<and> selected_docs latest_downloader (tables two_pid_env)
       (pid_docs latest_downloader (tables two_pid_env) [english_2020, english_2021])
     = Some [english_2021]
   \<and> (\<exists>sm s'. process_project latest_downloader two_pid_env (str ''P000001'') (str ''Kenya'') (str ''Rural Roads'') fresh_run
                = Some (sm, s')
         \<and> pid_count sm = 2 \<and> pad_count sm = 0 \<and> has_pid sm = True \<and> has_pad sm = False)"
proof -
  have docs: "fetched_docs (get_project_documents two_pid_env (str ''P000001'') fresh_run)
     = Some [english_2020, english_2021]"
    by code_simp
  then obtain s1 where fetched: "get_project_documents two_pid_env (str ''P000001'') fresh_run
     = Some ([english_2020, english_2021], s1)"
    by (cases "get_project_documents two_pid_env (str ''P000001'') fresh_run") (auto simp: fetched_docs_def)
  have chosen: "selected_docs latest_downloader (tables two_pid_env)
       (pid_docs latest_downloader (tables two_pid_env) [english_2020, english_2021])
     = Some [english_2021]"
    by code_simp
  have npid: "length (pid_docs latest_downloader (tables two_pid_env) [english_2020, english_2021]) = 2"
    by code_simp
  have npad: "length (pad_docs latest_downloader (tables two_pid_env) [english_2020, english_2021]) = 0"
    by code_simp
  from mp [OF summary_counts_before_selection fetched, of latest_downloader "str ''Kenya''" "str ''Rural Roads''"]
  have "\<exists>sm s'. process_project latest_downloader two_pid_env (str ''P000001'') (str ''Kenya'') (str ''Rural Roads'') fresh_run
                = Some (sm, s')
         \<and> pid_count sm = 2 \<and> pad_count sm = 0 \<and> has_pid sm = True \<and> has_pad sm = False"
    by (simp only: npid npad) simp
  with docs chosen show ?thesis
    by (intro conjI)
qed

text \<open>
  Claim C8, as the code has it. The path lists of the summary hold the storage path of
  every document of the type that was selected for download, in the order of the
  selection and joined by semicolons: a path is listed once its document has been
  handed to \<open>_download_document\<close>, whatever the outcome.
\<close>

theorem summary_paths_of_selected:
  "get_project_documents e project_id s = Some (docs, s1) \<longrightarrow>
     (\<exists>sm s' pid_sel pad_sel.
        process_project self e project_id country project_name s = Some (sm, s')
        \<and> selected_docs self (tables e) (pid_docs self (tables e) docs) = Some pid_sel
        \<and> selected_docs self (tables e) (pad_docs self (tables e) docs) = Some pad_sel
        \<and> pid_paths sm
            = join (str '';'') (map (\<lambda>d. get_document_path self e d PID project_id country project_name) pid_sel)
        \<and> pad_paths sm
            = join (str '';'') (map (\<lambda>d. get_document_path self e d PAD project_id country project_name) pad_sel))"
proof
  assume fetched: "get_project_documents e project_id s = Some (docs, s1)"
  obtain pid_sel pad_sel where sel:
    "selected_docs self (tables e) (pid_docs self (tables e) docs) = Some pid_sel"
    "selected_docs self (tables e) (pad_docs self (tables e) docs) = Some pad_sel"
    using selected_docs_total by blast
  from process_project_returns [OF fetched sel, of country project_name]
  obtain s' where ret: "process_project self e project_id country project_name s
           = Some (create_project_summary project_id country project_name
                     (0 < length (pid_docs self (tables e) docs)) (0 < length (pad_docs self (tables e) docs))
                     (length (pid_docs self (tables e) docs)) (length (pad_docs self (tables e) docs))
                     (map (\<lambda>d. get_document_path self e d PID project_id country project_name) pid_sel)
                     (map (\<lambda>d. get_document_path self e d PAD project_id country project_name) pad_sel),
                   s')"
    by blast
  show "\<exists>sm s' pid_sel pad_sel.
        process_project self e project_id country project_name s = Some (sm, s')
        \<and> selected_docs self (tables e) (pid_docs self (tables e) docs) = Some pid_sel
        \<and> selected_docs self (tables e) (pad_docs self (tables e) docs) = Some pad_sel
        \<and> pid_paths sm
            = join (str '';'') (map (\<lambda>d. get_document_path self e d PID project_id country project_name) pid_sel)
        \<and> pad_paths sm
            = join (str '';'') (map (\<lambda>d. get_document_path self e d PAD project_id country project_name) pad_sel)"
    by (rule exI [of _ "create_project_summary project_id country project_name
                     (0 < length (pid_docs self (tables e) docs)) (0 < length (pad_docs self (tables e) docs))
                     (length (pid_docs self (tables e) docs)) (length (pad_docs self (tables e) docs))
                     (map (\<lambda>d. get_document_path self e d PID project_id country project_name) pid_sel)
                     (map (\<lambda>d. get_document_path self e d PAD project_id country project_name) pad_sel)"],
        rule exI [of _ s'], rule exI [of _ pid_sel], rule exI [of _ pad_sel])
       (simp add: ret sel create_project_summary_def)
qed

theorem summary_paths_of_selected_witness:
  "fetched_docs (get_project_documents one_pid_env (str ''P000001'') fresh_run) = Some [linked_pid]
   \<and> selected_docs default_downloader (tables one_pid_env)
       (pid_docs default_downloader (tables one_pid_env) [linked_pid]) = Some [linked_pid]
   \<and> get_document_path default_downloader one_pid_env linked_pid PID (str ''P000001'') (str ''Kenya'') (str ''Rural Roads'')
      = linked_pid_path
   \<and> listed_pid_paths
        (process_project default_downloader one_pid_env (str ''P000001'') (str ''Kenya'') (str ''Rural Roads'') fresh_run)
      = Some linked_pid_path"
proof -
  have docs: "fetched_docs (get_project_documents one_pid_env (str ''P000001'') fresh_run) = Some [linked_pid]"
    by code_simp
  then obtain s1 where fetched: "get_project_documents one_pid_env (str ''P000001'') fresh_run
     = Some ([linked_pid], s1)"
    by (cases "get_project_documents one_pid_env (str ''P000001'') fresh_run") (auto simp: fetched_docs_def)
  have chosen: "selected_docs default_downloader (tables one_pid_env)
       (pid_docs default_downloader (tables one_pid_env) [linked_pid]) = Some [linked_pid]"
    by code_simp
  have path: "get_document_path default_downloader one_pid_env linked_pid PID (str ''P000001'') (str ''Kenya'') (str ''Rural Roads'')
      = linked_pid_path"
    by code_simp
  from mp [OF summary_paths_of_selected fetched, of default_downloader "str ''Kenya''" "str ''Rural Roads''"]
  obtain sm s' pid_sel where ret:
    "process_project default_downloader one_pid_env (str ''P000001'') (str ''Kenya'') (str ''Rural Roads'') fresh_run = Some (sm, s')"
    "selected_docs default_downloader (tables one_pid_env)
       (pid_docs default_downloader (tables one_pid_env) [linked_pid]) = Some pid_sel"
    "pid_paths sm = join (str '';'') (map (\<lambda>d. get_document_path default_downloader one_pid_env d PID
         (str ''P000001'') (str ''Kenya'') (str ''Rural Roads'')) pid_sel)"
    by blast
  from ret(2) chosen have "pid_sel = [linked_pid]"
    by simp
  with ret(1,3) path have listed: "listed_pid_paths
        (process_project default_downloader one_pid_env (str ''P000001'') (str ''Kenya'') (str ''Rural Roads'') fresh_run)
      = Some linked_pid_path"
    by (simp add: listed_pid_paths_def)
  from docs chosen path listed show ?thesis
    by (intro conjI)
qed

theorem summary_paths_failed_download_counterexample:
  "listed_pid_paths
     (process_project default_downloader one_pid_env (str ''P000001'') (str ''Kenya'') (str ''Rural Roads'') fresh_run)
     = Some linked_pid_path
   \<and> manifest_statuses
     (process_project default_downloader one_pid_env (str ''P000001'') (str ''Kenya'') (str ''Rural Roads'') fresh_run)
     = Some [str ''failed'']
   \<and> file_at linked_pid_path
     (process_project default_downloader one_pid_env (str ''P000001'') (str ''Kenya'') (str ''Rural Roads'') fresh_run)
     = Some None"
  by code_simp

end
